theory Spec2Isabelle
  imports Main
begin

text \<open>
  A model of the authentication flow of the goal-tracking application: the helpers
  \<open>isValidEmail\<close> and \<open>sanitizeString\<close>, the user and goal models, the services
  \<open>register\<close>, \<open>login\<close> and \<open>verifyToken\<close>, the authentication middleware and the
  four goal operations. A function that throws returns \<open>Inl\<close> of the value thrown; a
  function that writes to the store takes the store and returns it with its result.
\<close>

section \<open>JavaScript values\<close>

text \<open>
  The services receive arbitrary JavaScript values from a parsed JSON body, so arguments
  are values of \<open>js_val\<close>. Strings are lists of code units in the range 0..255.
  Numbers are restricted to the integers: fractions are left out, and a JSON body carries
  neither NaN nor an infinity. An object literal is an association list in the order the
  source writes its keys; arrays are left out.
\<close>

datatype js_val = JUndefined | JNull | JBool bool | JNum int | JStr string
  | JObj "(string \<times> js_val) list"

text \<open>Truthiness, as \<open>!x\<close>, \<open>x && y\<close>, \<open>x || y\<close> and \<open>if (x)\<close> read a value.\<close>

fun truthy :: "js_val \<Rightarrow> bool" where
  "truthy JUndefined = False"
| "truthy JNull = False"
| "truthy (JBool b) = b"
| "truthy (JNum n) = (n \<noteq> 0)"
| "truthy (JStr s) = (s \<noteq> [])"
| "truthy (JObj kvs) = True"

text \<open>Property access \<open>obj.key\<close>: \<open>undefined\<close> where the key is absent.\<close>

definition prop_of :: "js_val \<Rightarrow> string \<Rightarrow> js_val" where
  "prop_of obj k =
     (case obj of
        JObj kvs \<Rightarrow> (case map_of kvs k of Some v \<Rightarrow> v | None \<Rightarrow> JUndefined)
      | _ \<Rightarrow> JUndefined)"

definition keys_of :: "js_val \<Rightarrow> string list" where
  "keys_of obj = (case obj of JObj kvs \<Rightarrow> map fst kvs | _ \<Rightarrow> [])"

section \<open>Strings: trim, toLowerCase, split and the two regular expressions\<close>

text \<open>
  The white space of \<open>String.prototype.trim\<close> and of the class \<open>\s\<close> among the code
  units 0..255: tab, line feed, vertical tab, form feed, carriage return, space and
  the no-break space.
\<close>

definition isWhiteSpace :: "char \<Rightarrow> bool" where
  "isWhiteSpace c = (of_char c \<in> {9, 10, 11, 12, 13, 32, 160 :: nat})"

definition trim :: "string \<Rightarrow> string" where
  "trim s = rev (dropWhile isWhiteSpace (rev (dropWhile isWhiteSpace s)))"

definition toLowerCase_char :: "char \<Rightarrow> char" where
  "toLowerCase_char c =
     (let n = (of_char c :: nat)
      in if (65 \<le> n \<and> n \<le> 90) \<or> (192 \<le> n \<and> n \<le> 222 \<and> n \<noteq> 215)
         then char_of (n + 32) else c)"

definition toLowerCase :: "string \<Rightarrow> string" where
  "toLowerCase s = map toLowerCase_char s"

text \<open>\<open>str.split(' ')\<close>: the pieces between single spaces, empty pieces included.\<close>

fun split_space :: "string \<Rightarrow> string list" where
  "split_space [] = [[]]"
| "split_space (c # cs) =
     (if c = CHR '' '' then [] # split_space cs
      else (case split_space cs of [] \<Rightarrow> [[c]] | w # ws \<Rightarrow> (c # w) # ws))"

text \<open>
  \<open>str.replace(/<[^>]*>?/gm, '')\<close>: scanning from the left, a \<open><\<close> opens a match
  that takes every following unit other than \<open>>\<close> and then one \<open>>\<close> when there is one.
  The flag says whether the scan is inside such a match.
\<close>

fun strip_tags :: "bool \<Rightarrow> string \<Rightarrow> string" where
  "strip_tags in_tag [] = []"
| "strip_tags False (c # cs) =
     (if c = CHR ''<'' then strip_tags True cs else c # strip_tags False cs)"
| "strip_tags True (c # cs) =
     (if c = CHR ''>'' then strip_tags False cs else strip_tags True cs)"

text \<open>
  Anchored regular expressions built from one unit of a class (\<open>One\<close>) and one or more
  units of a class (\<open>Plus\<close>), matched with backtracking against the whole string.
\<close>

datatype rx = One "char \<Rightarrow> bool" | Plus "char \<Rightarrow> bool"

fun rx_match :: "rx list \<Rightarrow> string \<Rightarrow> bool" where
  "rx_match [] s = (s = [])"
| "rx_match (One p # rs) s =
     (case s of [] \<Rightarrow> False | c # cs \<Rightarrow> p c \<and> rx_match rs cs)"
| "rx_match (Plus p # rs) s =
     (case s of [] \<Rightarrow> False
      | c # cs \<Rightarrow> p c \<and> (rx_match rs cs \<or> rx_match (Plus p # rs) cs))"

text \<open>The class of one element of an expression.\<close>

fun rx_class :: "rx \<Rightarrow> char \<Rightarrow> bool" where
  "rx_class (One p) c = p c"
| "rx_class (Plus p) c = p c"

text \<open>The class \<open>[^@\s]\<close> (the user schema writes it \<open>[^\s@]\<close>).\<close>

definition not_at_ws :: "char \<Rightarrow> bool" where
  "not_at_ws c = (\<not> (c = CHR ''@'' \<or> isWhiteSpace c))"

text \<open>\<open>/^[^@\s]+@[^@\s]+\.[^@\s]+$/\<close>\<close>

definition emailRegex :: "rx list" where
  "emailRegex = [Plus not_at_ws, One (\<lambda>c. c = CHR ''@''), Plus not_at_ws,
                 One (\<lambda>c. c = CHR ''.''), Plus not_at_ws]"

text \<open>The class \<open>[a-zA-Z0-9_]\<close> and the expression \<open>/^[a-zA-Z0-9_]+$/\<close>.\<close>

definition word_char :: "char \<Rightarrow> bool" where
  "word_char c =
     (let n = (of_char c :: nat)
      in (97 \<le> n \<and> n \<le> 122) \<or> (65 \<le> n \<and> n \<le> 90) \<or> (48 \<le> n \<and> n \<le> 57) \<or> n = 95)"

definition usernameRegex :: "rx list" where
  "usernameRegex = [Plus word_char]"

section \<open>src/utils/helpers.js\<close>

definition isValidEmail :: "js_val \<Rightarrow> bool" where
  "isValidEmail email =
     (case email of
        JStr s \<Rightarrow> (if trim s = [] then False else rx_match emailRegex s)
      | _ \<Rightarrow> False)"

definition sanitizeString :: "js_val \<Rightarrow> string" where
  "sanitizeString str =
     (case str of JStr s \<Rightarrow> strip_tags False (trim s) | _ \<Rightarrow> [])"

section \<open>Thrown values\<close>

text \<open>
  The services throw object literals \<open>{message, code, statusText}\<close>; the libraries
  throw error objects that carry a \<open>name\<close> and a \<open>message\<close> and, for the database
  driver, a numeric \<open>code\<close>. The catch blocks tell them apart by reading properties
  (\<open>error.message && error.code\<close>), so one record with optional properties holds
  both; \<open>None\<close> is an absent property.
\<close>

record js_error =
  name :: "string option"
  message :: "string option"
  code :: "nat option"
  statusText :: "string option"

definition truthy_str :: "string option \<Rightarrow> bool" where
  "truthy_str p = (case p of Some s \<Rightarrow> s \<noteq> [] | None \<Rightarrow> False)"

definition truthy_num :: "nat option \<Rightarrow> bool" where
  "truthy_num p = (case p of Some n \<Rightarrow> n \<noteq> 0 | None \<Rightarrow> False)"

text \<open>\<open>p || d\<close> on an optional string and on an optional number.\<close>

definition or_str :: "string option \<Rightarrow> string \<Rightarrow> string" where
  "or_str p d = (case p of Some s \<Rightarrow> (if s = [] then d else s) | None \<Rightarrow> d)"

definition or_num :: "nat option \<Rightarrow> nat \<Rightarrow> nat" where
  "or_num p d = (case p of Some n \<Rightarrow> (if n = 0 then d else n) | None \<Rightarrow> d)"

text \<open>The object literal \<open>{ message: m, code: c, statusText: t }\<close>.\<close>

definition structured :: "string \<Rightarrow> nat \<Rightarrow> string \<Rightarrow> js_error" where
  "structured m c t =
     \<lparr>name = None, message = Some m, code = Some c, statusText = Some t\<rparr>"

definition bad_request :: "string \<Rightarrow> js_error" where
  "bad_request m = structured m 400 ''Bad Request''"

definition not_found :: "string \<Rightarrow> js_error" where
  "not_found m = structured m 404 ''Not Found''"

definition unauthorized :: "string \<Rightarrow> js_error" where
  "unauthorized m = structured m 401 ''Unauthorized''"

definition internal :: "string \<Rightarrow> js_error" where
  "internal m = structured m 500 ''Internal Server Error''"

text \<open>A value carries the full shape when all three properties are present.\<close>

definition is_structured :: "js_error \<Rightarrow> bool" where
  "is_structured e = (message e \<noteq> None \<and> code e \<noteq> None \<and> statusText e \<noteq> None)"

text \<open>The test of every catch block of the services: \<open>error.message && error.code\<close>.\<close>

definition formatted :: "js_error \<Rightarrow> bool" where
  "formatted e = (truthy_str (message e) \<and> truthy_num (code e))"

text \<open>An \<open>Error\<close> object of the runtime or of a library: a name and a message.\<close>

definition error_object :: "string \<Rightarrow> string \<Rightarrow> js_error" where
  "error_object n m = \<lparr>name = Some n, message = Some m, code = None, statusText = None\<rparr>"

text \<open>Calling a binding that is \<open>undefined\<close>.\<close>

definition not_a_function :: "string \<Rightarrow> js_error" where
  "not_a_function f = error_object ''TypeError'' (f @ '' is not a function'')"

text \<open>The driver's duplicate-key error: a message and the numeric code 11000.\<close>

definition duplicate_key_error :: js_error where
  "duplicate_key_error =
     \<lparr>name = Some ''MongoServerError'', message = Some ''E11000 duplicate key error'',
      code = Some 11000, statusText = None\<rparr>"

section \<open>The libraries, the environment and the world\<close>

text \<open>
  bcrypt, jsonwebtoken, the date parser and the object-document mapper are third-party
  code. What the services need of them is a parameter: the hash function and the salt a
  hash string embeds; the token codec and the signature function; the date parser
  (\<open>None\<close> for a string that is no date, otherwise a time value in milliseconds); and
  whether the mapper applies a path's schema setters (\<open>lowercase\<close>, \<open>trim\<close>) to the
  value of a query filter as it does to a written value. Mongoose, the mapper of this
  repository, casts a filter with the schema and so applies them: \<open>query_setters\<close> is
  \<open>True\<close> there, and what is stated about the duplicate pre-check of \<open>register\<close> is
  stated for that value.
\<close>

record jwt_claims =
  c_userId :: js_val
  c_email :: js_val
  c_iat :: int
  c_exp :: "int option"

record jws =
  jws_payload :: jwt_claims
  jws_signature :: string

record libs =
  bcrypt_hash :: "string \<Rightarrow> string \<Rightarrow> string"
  bcrypt_salt_of :: "string \<Rightarrow> string option"
  jwt_encode :: "jws \<Rightarrow> string"
  jwt_decode :: "string \<Rightarrow> jws option"
  jwt_mac :: "string \<Rightarrow> jwt_claims \<Rightarrow> string"
  date_parse :: "string \<Rightarrow> int option"
  query_setters :: bool

text \<open>\<open>process.env\<close>; the lifetime is in seconds.\<close>

record env =
  JWT_SECRET :: "string option"
  JWT_EXPIRES_IN :: "int option"

text \<open>
  What one request draws from outside: the clock as jsonwebtoken reads it, in seconds
  (\<open>now\<close>), and as \<open>new Date()\<close> and the time stamps of the mapper read it, in
  milliseconds (\<open>Date_now\<close>); the two salts of \<open>bcrypt.genSalt\<close> (the service's and the
  save hook's); and the identifier of a new document.
\<close>

record world =
  now :: int
  Date_now :: int
  genSalt_service :: string
  genSalt_hook :: string
  new_ObjectId :: string

text \<open>
  \<open>bcrypt.compare(data, hash)\<close> hashes the data again with the salt the hash string
  embeds and compares; a string that embeds no salt matches nothing.
\<close>

definition bcrypt_compare :: "libs \<Rightarrow> string \<Rightarrow> string \<Rightarrow> bool" where
  "bcrypt_compare L pw h =
     (case bcrypt_salt_of L h of None \<Rightarrow> False | Some s \<Rightarrow> bcrypt_hash L pw s = h)"

text \<open>
  \<open>process.env.JWT_EXPIRES_IN || '1d'\<close>: an environment value is a string, so a
  lifetime of zero is kept and only an absent value falls back to one day.
\<close>

definition expiresIn :: "env \<Rightarrow> int" where
  "expiresIn E = (case JWT_EXPIRES_IN E of None \<Rightarrow> 86400 | Some t \<Rightarrow> t)"

text \<open>
  \<open>jwt.sign(payload, secret, {expiresIn})\<close> stamps the payload with the issue time and
  the expiry, signs it and encodes the result; without a secret it throws.
\<close>

definition signed_jws :: "libs \<Rightarrow> string \<Rightarrow> int \<Rightarrow> int \<Rightarrow> js_val \<Rightarrow> js_val \<Rightarrow> jws" where
  "signed_jws L k t ttl uid mail =
     (let claims = \<lparr>c_userId = uid, c_email = mail, c_iat = t, c_exp = Some (t + ttl)\<rparr>
      in \<lparr>jws_payload = claims, jws_signature = jwt_mac L k claims\<rparr>)"

definition jwt_sign ::
  "libs \<Rightarrow> string option \<Rightarrow> int \<Rightarrow> int \<Rightarrow> js_val \<Rightarrow> js_val \<Rightarrow> js_error + string" where
  "jwt_sign L secret t ttl uid mail =
     (case secret of
        None \<Rightarrow> Inl (error_object ''Error'' ''secretOrPrivateKey must have a value'')
      | Some k \<Rightarrow>
          if k = [] then Inl (error_object ''Error'' ''secretOrPrivateKey must have a value'')
          else Inr (jwt_encode L (signed_jws L k t ttl uid mail)))"

text \<open>
  \<open>jwt.verify(token, secret)\<close>: decode, check the signature, then the expiry; a token
  is expired from the second of its expiry on.
\<close>

definition jwt_verify :: "libs \<Rightarrow> string option \<Rightarrow> int \<Rightarrow> string \<Rightarrow> js_error + jwt_claims" where
  "jwt_verify L secret t token =
     (case jwt_decode L token of
        None \<Rightarrow> Inl (error_object ''JsonWebTokenError'' ''jwt malformed'')
      | Some j \<Rightarrow>
          (case secret of
             None \<Rightarrow>
               Inl (error_object ''JsonWebTokenError'' ''secret or public key must be provided'')
           | Some k \<Rightarrow>
               if k = [] then
                 Inl (error_object ''JsonWebTokenError'' ''secret or public key must be provided'')
               else if jws_signature j = jwt_mac L k (jws_payload j) then
                 (case c_exp (jws_payload j) of
                    None \<Rightarrow> Inr (jws_payload j)
                  | Some e \<Rightarrow>
                      if e \<le> t then Inl (error_object ''TokenExpiredError'' ''jwt expired'')
                      else Inr (jws_payload j))
               else Inl (error_object ''JsonWebTokenError'' ''invalid signature'')))"

section \<open>The store\<close>

record user_doc =
  u_id :: string
  u_username :: string
  u_email :: string
  u_password :: string
  u_createdAt :: int
  u_updatedAt :: int

record goal_doc =
  g_id :: string
  g_userId :: string
  g_title :: string
  g_description :: string
  g_targetDate :: int
  g_progress :: int
  g_createdAt :: int
  g_updatedAt :: int

record db =
  users :: "user_doc list"
  goals :: "goal_doc list"

section \<open>api/models/User.js\<close>

text \<open>The setters of the path \<open>email\<close>: \<open>lowercase: true, trim: true\<close>.\<close>

definition email_setters :: "string \<Rightarrow> string" where
  "email_setters s = trim (toLowerCase s)"

text \<open>
  \<open>new User({username, email, password})\<close>: the setters run on construction; the
  identifier and the two time stamps of \<open>timestamps: true\<close> come from the world.
\<close>

definition User_new :: "world \<Rightarrow> string \<Rightarrow> string \<Rightarrow> string \<Rightarrow> user_doc" where
  "User_new W username email password =
     \<lparr>u_id = new_ObjectId W, u_username = trim username, u_email = email_setters email,
      u_password = password, u_createdAt = Date_now W, u_updatedAt = Date_now W\<rparr>"

text \<open>
  The validators of the schema: \<open>username\<close> required, 3 to 50 units, alphanumeric or
  underscore; \<open>email\<close> required and of the email shape; \<open>password\<close> required, at least
  8 units. A failure is the mapper's \<open>ValidationError\<close>, which has no \<open>code\<close>.
\<close>

definition User_valid :: "user_doc \<Rightarrow> bool" where
  "User_valid d =
     (3 \<le> length (u_username d) \<and> length (u_username d) \<le> 50
      \<and> rx_match usernameRegex (u_username d)
      \<and> rx_match emailRegex (u_email d)
      \<and> 8 \<le> length (u_password d))"

text \<open>
  \<open>User.findOne({ email })\<close>: the first record whose stored email is the value of the
  filter, after the setters of the path when the mapper casts the filter with the schema
  (\<open>query_setters\<close>, which holds of mongoose).
\<close>

definition User_findOne_email :: "libs \<Rightarrow> db \<Rightarrow> string \<Rightarrow> user_doc option" where
  "User_findOne_email L d email =
     find (\<lambda>u. u_email u = (if query_setters L then email_setters email else email)) (users d)"

definition User_findById :: "db \<Rightarrow> string \<Rightarrow> user_doc option" where
  "User_findById d userId = find (\<lambda>u. u_id u = userId) (users d)"

text \<open>
  \<open>save()\<close> of a new document: validation, then the hook \<open>pre('save')\<close>, which hashes
  the password of a new document with a fresh salt, then the insert, which the unique
  indexes on \<open>_id\<close>, \<open>username\<close> and \<open>email\<close> reject with the duplicate-key error.
\<close>

definition User_save :: "libs \<Rightarrow> world \<Rightarrow> db \<Rightarrow> user_doc \<Rightarrow> (js_error + user_doc) \<times> db" where
  "User_save L W d doc =
     (if User_valid doc then
        let saved = doc\<lparr>u_password := bcrypt_hash L (u_password doc) (genSalt_hook W)\<rparr>
        in if list_ex (\<lambda>u. u_id u = u_id saved \<or> u_username u = u_username saved
                            \<or> u_email u = u_email saved) (users d)
           then (Inl duplicate_key_error, d)
           else (Inr saved, d\<lparr>users := users d @ [saved]\<rparr>)
      else (Inl (error_object ''ValidationError'' ''User validation failed''), d))"

text \<open>\<open>userSchema.statics.findByCredentials\<close>\<close>

definition findByCredentials :: "libs \<Rightarrow> db \<Rightarrow> string \<Rightarrow> string \<Rightarrow> user_doc option" where
  "findByCredentials L d email password =
     (case User_findOne_email L d email of
        None \<Rightarrow> None
      | Some user \<Rightarrow> if bcrypt_compare L password (u_password user) then Some user else None)"

section \<open>api/services/authService.js\<close>

text \<open>The object both services return for a user: five keys, no password.\<close>

definition user_view :: "user_doc \<Rightarrow> js_val" where
  "user_view u =
     JObj [(''username'', JStr (u_username u)), (''email'', JStr (u_email u)),
           (''id'', JStr (u_id u)), (''createdAt'', JNum (u_createdAt u)),
           (''updatedAt'', JNum (u_updatedAt u))]"

definition register_try ::
  "libs \<Rightarrow> world \<Rightarrow> db \<Rightarrow> string \<Rightarrow> string \<Rightarrow> string \<Rightarrow> (js_error + js_val) \<times> db" where
  "register_try L W d sanitizedUsername sanitizedEmail sanitizedPassword =
     (case User_findOne_email L d sanitizedEmail of
        Some existingUser \<Rightarrow> (Inl (bad_request ''User with this email already exists''), d)
      | None \<Rightarrow>
          let hashedPassword = bcrypt_hash L sanitizedPassword (genSalt_service W)
          in (case User_save L W d (User_new W sanitizedUsername sanitizedEmail hashedPassword) of
                (Inl e, d') \<Rightarrow> (Inl e, d')
              | (Inr savedUser, d') \<Rightarrow> (Inr (user_view savedUser), d')))"

definition register_catch :: "js_error \<Rightarrow> js_error" where
  "register_catch e =
     (if formatted e then e
      else internal (or_str (message e) ''Failed to register user''))"

definition register ::
  "libs \<Rightarrow> world \<Rightarrow> db \<Rightarrow> js_val \<Rightarrow> js_val \<Rightarrow> js_val \<Rightarrow> (js_error + js_val) \<times> db" where
  "register L W d username email password =
     (let sanitizedUsername = sanitizeString username;
          sanitizedEmail = sanitizeString email;
          sanitizedPassword = sanitizeString password
      in if sanitizedUsername = [] \<or> trim sanitizedUsername = [] then
           (Inl (bad_request ''Username is required''), d)
         else if sanitizedEmail = [] \<or> trim sanitizedEmail = [] then
           (Inl (bad_request ''Email is required''), d)
         else if \<not> isValidEmail (JStr sanitizedEmail) then
           (Inl (bad_request ''Invalid email format''), d)
         else if sanitizedPassword = [] \<or> length sanitizedPassword < 8 then
           (Inl (bad_request ''Password must be at least 8 characters long''), d)
         else
           (case register_try L W d sanitizedUsername sanitizedEmail sanitizedPassword of
              (Inl e, d') \<Rightarrow> (Inl (register_catch e), d')
            | (Inr r, d') \<Rightarrow> (Inr r, d')))"

definition login_try ::
  "libs \<Rightarrow> env \<Rightarrow> world \<Rightarrow> db \<Rightarrow> string \<Rightarrow> string \<Rightarrow> js_error + js_val" where
  "login_try L E W d sanitizedEmail sanitizedPassword =
     (case findByCredentials L d sanitizedEmail sanitizedPassword of
        None \<Rightarrow> Inl (not_found ''Invalid login credentials'')
      | Some user \<Rightarrow>
          (case jwt_sign L (JWT_SECRET E) (now W) (expiresIn E)
                  (JStr (u_id user)) (JStr (u_email user)) of
             Inl e \<Rightarrow> Inl e
           | Inr token \<Rightarrow>
               Inr (JObj [(''message'', JStr ''Login successful''), (''token'', JStr token),
                          (''user'', user_view user)])))"

definition login_catch :: "js_error \<Rightarrow> js_error" where
  "login_catch e =
     (if formatted e then e
      else structured (or_str (message e) ''Login failed. Please try again.'')
             (or_num (code e) 500) (or_str (statusText e) ''Internal Server Error''))"

definition login :: "libs \<Rightarrow> env \<Rightarrow> world \<Rightarrow> db \<Rightarrow> js_val \<Rightarrow> js_val \<Rightarrow> js_error + js_val" where
  "login L E W d email password =
     (let sanitizedEmail = sanitizeString email;
          sanitizedPassword = sanitizeString password
      in if sanitizedEmail = [] \<or> trim sanitizedEmail = [] then
           Inl (bad_request ''Email is required'')
         else if \<not> isValidEmail (JStr sanitizedEmail) then
           Inl (bad_request ''Invalid email format'')
         else if sanitizedPassword = [] \<or> length sanitizedPassword < 8 then
           Inl (bad_request ''Password must be at least 8 characters long'')
         else
           (case login_try L E W d sanitizedEmail sanitizedPassword of
              Inl e \<Rightarrow> Inl (login_catch e)
            | Inr r \<Rightarrow> Inr r))"

definition verifyToken :: "libs \<Rightarrow> env \<Rightarrow> world \<Rightarrow> string \<Rightarrow> js_error + jwt_claims" where
  "verifyToken L E W token =
     (if token = [] then Inl (bad_request ''JWT token is missing'')
      else (case jwt_verify L (JWT_SECRET E) (now W) token of
              Inl e \<Rightarrow> Inl (unauthorized (or_str (message e) ''Invalid or expired token''))
            | Inr decoded \<Rightarrow> Inr decoded))"

section \<open>The import of isValidObjectId\<close>

text \<open>
  The goal service, the goal controller and the authentication middleware import
  \<open>isValidObjectId\<close> from \<open>src/utils/helpers\<close>. The functions take the imported
  binding as their first argument: \<open>Some f\<close> is a module that exports the function
  \<open>f\<close>, \<open>None\<close> is a binding that is \<open>undefined\<close>, and calling it throws a
  \<open>TypeError\<close>.
\<close>

definition call_isValidObjectId :: "(string \<Rightarrow> bool) option \<Rightarrow> string \<Rightarrow> js_error + bool" where
  "call_isValidObjectId isValidObjectId x =
     (case isValidObjectId of
        None \<Rightarrow> Inl (not_a_function ''isValidObjectId'')
      | Some f \<Rightarrow> Inr (f x))"

text \<open>
  The export list of helpers.js is \<open>isValidEmail, formatDate, truncateString,
  sanitizeString, generateRandomString\<close>: the file neither defines nor exports
  \<open>isValidObjectId\<close>.
\<close>

definition helpers_isValidObjectId :: "(string \<Rightarrow> bool) option" where
  "helpers_isValidObjectId = None"

text \<open>
  The guard \<open>if (!id || !isValidObjectId(id)) throw {message, code: 400, ...}\<close>: an
  empty identifier is refused before the call.
\<close>

definition require_ObjectId ::
  "(string \<Rightarrow> bool) option \<Rightarrow> string \<Rightarrow> string \<Rightarrow> js_error + unit" where
  "require_ObjectId isValidObjectId x msg =
     (if x = [] then Inl (bad_request msg)
      else (case call_isValidObjectId isValidObjectId x of
              Inl e \<Rightarrow> Inl e
            | Inr ok \<Rightarrow> if ok then Inr () else Inl (bad_request msg)))"

section \<open>api/middlewares/authMiddleware.js\<close>

text \<open>
  The middleware either answers the request itself (\<open>res.status(s).json(body)\<close>, and
  the handler never runs) or sets \<open>req.user\<close> and calls \<open>next()\<close>.
\<close>

record req_user =
  ru_userId :: string
  ru_email :: string

datatype gate_result = Respond nat js_val | Next req_user

definition json_error :: "string \<Rightarrow> nat \<Rightarrow> string \<Rightarrow> js_val" where
  "json_error m c t =
     JObj [(''message'', JStr m), (''code'', JNum (int c)), (''statusText'', JStr t)]"

definition respond_401 :: "string \<Rightarrow> gate_result" where
  "respond_401 m = Respond 401 (json_error m 401 ''Unauthorized'')"

definition authenticate_try ::
  "(string \<Rightarrow> bool) option \<Rightarrow> libs \<Rightarrow> env \<Rightarrow> world \<Rightarrow> db \<Rightarrow> string \<Rightarrow> js_error + gate_result" where
  "authenticate_try isValidObjectId L E W d token =
     (case jwt_verify L (JWT_SECRET E) (now W) token of
        Inl e \<Rightarrow> Inl e
      | Inr decoded \<Rightarrow>
          if \<not> truthy (c_userId decoded) then
            Inr (respond_401 ''Authentication failed: Invalid token payload'')
          else
            let userId = sanitizeString (c_userId decoded)
            in if userId = [] then
                 Inr (respond_401 ''Authentication failed: Invalid userId format in token payload'')
               else
                 (case call_isValidObjectId isValidObjectId userId of
                    Inl e \<Rightarrow> Inl e
                  | Inr ok \<Rightarrow>
                      if \<not> ok then
                        Inr (respond_401
                               ''Authentication failed: Invalid userId format in token payload'')
                      else
                        (case User_findById d userId of
                           None \<Rightarrow> Inr (respond_401 ''Authentication failed: User not found'')
                         | Some user \<Rightarrow>
                             Inr (Next \<lparr>ru_userId = u_id user, ru_email = u_email user\<rparr>))))"

definition authenticate_catch :: "js_error \<Rightarrow> gate_result" where
  "authenticate_catch e =
     (if name e = Some ''TokenExpiredError'' then
        respond_401 ''Authentication failed: Token Expired''
      else respond_401 (or_str (message e) ''Authentication failed: Invalid token''))"

definition authenticate ::
  "(string \<Rightarrow> bool) option \<Rightarrow> libs \<Rightarrow> env \<Rightarrow> world \<Rightarrow> db \<Rightarrow> string option \<Rightarrow> gate_result" where
  "authenticate isValidObjectId L E W d authHeader =
     (case authHeader of
        None \<Rightarrow> respond_401 ''Authentication failed: No token provided''
      | Some h \<Rightarrow>
          if h = [] then respond_401 ''Authentication failed: No token provided''
          else
            let tokenParts = split_space h
            in if length tokenParts \<noteq> 2 then
                 respond_401 ''Authentication failed: Invalid token format''
               else if tokenParts ! 0 \<noteq> ''Bearer'' then
                 respond_401 ''Authentication failed: Invalid token format''
               else
                 let token = tokenParts ! 1
                 in if token = [] \<or> trim token = [] then
                      respond_401 ''Authentication failed: Token is empty''
                    else
                      (case authenticate_try isValidObjectId L E W d token of
                         Inl e \<Rightarrow> authenticate_catch e
                       | Inr r \<Rightarrow> r))"

section \<open>api/models/Goal.js\<close>

text \<open>
  The validators of the schema: \<open>title\<close> required, at most 100 units;
  \<open>description\<close> at most 500 units; \<open>targetDate\<close> after the clock; \<open>progress\<close>
  from 0 to 100.
\<close>

definition Goal_valid :: "world \<Rightarrow> goal_doc \<Rightarrow> bool" where
  "Goal_valid W g =
     (g_userId g \<noteq> [] \<and> g_title g \<noteq> [] \<and> length (g_title g) \<le> 100
      \<and> length (g_description g) \<le> 500 \<and> Date_now W < g_targetDate g
      \<and> 0 \<le> g_progress g \<and> g_progress g \<le> 100)"

text \<open>\<open>Goal.findOne({ _id: goalId, userId: userId })\<close>\<close>

definition Goal_findOne :: "db \<Rightarrow> string \<Rightarrow> string \<Rightarrow> goal_doc option" where
  "Goal_findOne d goalId userId =
     find (\<lambda>g. g_id g = goalId \<and> g_userId g = userId) (goals d)"

text \<open>\<open>save()\<close> of a new goal: validation, then the insert.\<close>

definition Goal_insert :: "world \<Rightarrow> db \<Rightarrow> goal_doc \<Rightarrow> (js_error + goal_doc) \<times> db" where
  "Goal_insert W d g =
     (if Goal_valid W g then
        if list_ex (\<lambda>x. g_id x = g_id g) (goals d) then (Inl duplicate_key_error, d)
        else (Inr g, d\<lparr>goals := goals d @ [g]\<rparr>)
      else (Inl (error_object ''ValidationError'' ''Goal validation failed''), d))"

text \<open>
  \<open>save()\<close> of a goal that was read and assigned to: validation of the document, then
  the write by \<open>_id\<close>; \<open>updatedAt\<close> moves when a path was modified.
\<close>

definition Goal_save :: "world \<Rightarrow> db \<Rightarrow> goal_doc \<Rightarrow> goal_doc \<Rightarrow> (js_error + goal_doc) \<times> db" where
  "Goal_save W d original g =
     (if Goal_valid W g then
        let saved = (if g = original then g else g\<lparr>g_updatedAt := Date_now W\<rparr>)
        in (Inr saved, d\<lparr>goals := map (\<lambda>x. if g_id x = g_id saved then saved else x) (goals d)\<rparr>)
      else (Inl (error_object ''ValidationError'' ''Goal validation failed''), d))"

text \<open>\<open>Goal.deleteOne(filter)\<close> removes the first document the filter matches.\<close>

fun remove_first :: "('a \<Rightarrow> bool) \<Rightarrow> 'a list \<Rightarrow> 'a list" where
  "remove_first P [] = []"
| "remove_first P (x # xs) = (if P x then xs else x # remove_first P xs)"

definition Goal_deleteOne :: "db \<Rightarrow> string \<Rightarrow> string \<Rightarrow> db" where
  "Goal_deleteOne d goalId userId =
     d\<lparr>goals := remove_first (\<lambda>g. g_id g = goalId \<and> g_userId g = userId) (goals d)\<rparr>"

section \<open>api/services/goalService.js\<close>

text \<open>
  \<open>new Date(v)\<close> as its time value in milliseconds, \<open>None\<close> for an invalid date: a
  number is the time value itself when it lies within 8.64e15 milliseconds of the epoch
  and an invalid date beyond, a string is parsed, \<open>null\<close> and the booleans convert to
  numbers, \<open>undefined\<close> and an object give an invalid date.
\<close>

definition new_Date :: "libs \<Rightarrow> js_val \<Rightarrow> int option" where
  "new_Date L v =
     (case v of
        JNum n \<Rightarrow> if - 8640000000000000 \<le> n \<and> n \<le> 8640000000000000 then Some n else None
      | JStr s \<Rightarrow> date_parse L s
      | JBool b \<Rightarrow> Some (if b then 1 else 0)
      | JNull \<Rightarrow> Some 0
      | _ \<Rightarrow> None)"

text \<open>\<open>typeof progress !== 'number' || progress < 0 || progress > 100\<close>, negated.\<close>

definition progress_in_range :: "js_val \<Rightarrow> bool" where
  "progress_in_range progress =
     (case progress of JNum n \<Rightarrow> 0 \<le> n \<and> n \<le> 100 | _ \<Rightarrow> False)"

text \<open>The catch block of the four goal operations, with the operation's own message.\<close>

definition goal_catch :: "string \<Rightarrow> js_error \<Rightarrow> js_error" where
  "goal_catch fallback e = (if formatted e then e else internal fallback)"

definition createGoal_try ::
  "world \<Rightarrow> db \<Rightarrow> string \<Rightarrow> string \<Rightarrow> string \<Rightarrow> int \<Rightarrow> int \<Rightarrow> (js_error + goal_doc) \<times> db" where
  "createGoal_try W d userId sanitizedTitle sanitizedDescription targetDateObj progress =
     (case User_findById d userId of
        None \<Rightarrow> (Inl (not_found ''User not found''), d)
      | Some user \<Rightarrow>
          Goal_insert W d
            \<lparr>g_id = new_ObjectId W, g_userId = userId, g_title = trim sanitizedTitle,
             g_description = sanitizedDescription, g_targetDate = targetDateObj,
             g_progress = progress, g_createdAt = Date_now W, g_updatedAt = Date_now W\<rparr>)"

definition createGoal ::
  "(string \<Rightarrow> bool) option \<Rightarrow> libs \<Rightarrow> world \<Rightarrow> db \<Rightarrow> string \<Rightarrow> js_val \<Rightarrow> js_val \<Rightarrow> js_val \<Rightarrow> js_val
     \<Rightarrow> (js_error + goal_doc) \<times> db" where
  "createGoal isValidObjectId L W d userId title description targetDate progress =
     (let sanitizedTitle = sanitizeString title;
          sanitizedDescription = sanitizeString description
      in case require_ObjectId isValidObjectId userId ''Invalid userId provided'' of
           Inl e \<Rightarrow> (Inl e, d)
         | Inr u \<Rightarrow>
             if sanitizedTitle = [] \<or> trim sanitizedTitle = [] then
               (Inl (bad_request ''Goal title is required''), d)
             else if 100 < length sanitizedTitle then
               (Inl (bad_request ''Goal title must be less than 100 characters long''), d)
             else if 500 < length sanitizedDescription then
               (Inl (bad_request ''Goal description must be less than 500 characters long''), d)
             else if \<not> truthy targetDate then
               (Inl (bad_request ''Target date is required''), d)
             else
               (case new_Date L targetDate of
                  None \<Rightarrow> (Inl (bad_request ''Invalid target date format''), d)
                | Some targetDateObj \<Rightarrow>
                    if targetDateObj \<le> Date_now W then
                      (Inl (bad_request ''Target date must be in the future''), d)
                    else
                      (case progress of
                         JNum n \<Rightarrow>
                           if 0 \<le> n \<and> n \<le> 100 then
                             (case createGoal_try W d userId sanitizedTitle sanitizedDescription
                                     targetDateObj n of
                                (Inl e, d') \<Rightarrow> (Inl (goal_catch ''Failed to create goal'' e), d')
                              | (Inr g, d') \<Rightarrow> (Inr g, d'))
                           else
                             (Inl (bad_request ''Progress must be a number between 0 and 100''), d)
                       | _ \<Rightarrow>
                           (Inl (bad_request ''Progress must be a number between 0 and 100''), d))))"

definition getGoal_try :: "db \<Rightarrow> string \<Rightarrow> string \<Rightarrow> js_error + goal_doc" where
  "getGoal_try d goalId userId =
     (case User_findById d userId of
        None \<Rightarrow> Inl (not_found ''User not found'')
      | Some user \<Rightarrow>
          (case Goal_findOne d goalId userId of
             None \<Rightarrow> Inl (not_found ''Goal not found'')
           | Some goal \<Rightarrow> Inr goal))"

definition getGoal ::
  "(string \<Rightarrow> bool) option \<Rightarrow> db \<Rightarrow> string \<Rightarrow> string \<Rightarrow> js_error + goal_doc" where
  "getGoal isValidObjectId d goalId userId =
     (case require_ObjectId isValidObjectId goalId ''Invalid goalId provided'' of
        Inl e \<Rightarrow> Inl e
      | Inr u \<Rightarrow>
          (case require_ObjectId isValidObjectId userId ''Invalid userId provided'' of
             Inl e \<Rightarrow> Inl e
           | Inr u' \<Rightarrow>
               (case getGoal_try d goalId userId of
                  Inl e \<Rightarrow> Inl (goal_catch ''Failed to retrieve goal'' e)
                | Inr goal \<Rightarrow> Inr goal)))"

text \<open>
  The four assignments of \<open>updateGoal\<close>, each behind a truthiness test of the value
  passed: \<open>if(sanitizedTitle)\<close>, \<open>if(sanitizedDescription)\<close>, \<open>if(targetDate)\<close>,
  \<open>if(progress)\<close>.
\<close>

definition assign_fields ::
  "libs \<Rightarrow> goal_doc \<Rightarrow> string \<Rightarrow> string \<Rightarrow> js_val \<Rightarrow> js_val \<Rightarrow> goal_doc" where
  "assign_fields L goal sanitizedTitle sanitizedDescription targetDate progress =
     (let g1 = (if sanitizedTitle \<noteq> [] then goal\<lparr>g_title := trim sanitizedTitle\<rparr> else goal);
          g2 = (if sanitizedDescription \<noteq> [] then g1\<lparr>g_description := sanitizedDescription\<rparr>
                else g1);
          g3 = (if truthy targetDate then
                  (case new_Date L targetDate of
                     Some t \<Rightarrow> g2\<lparr>g_targetDate := t\<rparr>
                   | None \<Rightarrow> g2)
                else g2)
      in if truthy progress then
           (case progress of JNum n \<Rightarrow> g3\<lparr>g_progress := n\<rparr> | _ \<Rightarrow> g3)
         else g3)"

definition updateGoal_try ::
  "libs \<Rightarrow> world \<Rightarrow> db \<Rightarrow> string \<Rightarrow> string \<Rightarrow> string \<Rightarrow> string \<Rightarrow> js_val \<Rightarrow> js_val
     \<Rightarrow> (js_error + goal_doc) \<times> db" where
  "updateGoal_try L W d goalId userId sanitizedTitle sanitizedDescription targetDate progress =
     (case User_findById d userId of
        None \<Rightarrow> (Inl (not_found ''User not found''), d)
      | Some user \<Rightarrow>
          (case Goal_findOne d goalId userId of
             None \<Rightarrow> (Inl (not_found ''Goal not found''), d)
           | Some goal \<Rightarrow>
               Goal_save W d goal
                 (assign_fields L goal sanitizedTitle sanitizedDescription targetDate progress)))"

text \<open>The checks of \<open>updateGoal\<close> that follow the two identifier guards.\<close>

definition updateGoal_validate ::
  "libs \<Rightarrow> world \<Rightarrow> string \<Rightarrow> string \<Rightarrow> js_val \<Rightarrow> js_val \<Rightarrow> js_error option" where
  "updateGoal_validate L W sanitizedTitle sanitizedDescription targetDate progress =
     (if 100 < length sanitizedTitle then
        Some (bad_request ''Goal title must be less than 100 characters long'')
      else if 500 < length sanitizedDescription then
        Some (bad_request ''Goal description must be less than 500 characters long'')
      else
        (case (if truthy targetDate then
                 (case new_Date L targetDate of
                    None \<Rightarrow> Some (bad_request ''Invalid target date format'')
                  | Some targetDateObj \<Rightarrow>
                      if targetDateObj \<le> Date_now W then
                        Some (bad_request ''Target date must be in the future'')
                      else None)
               else None) of
           Some e \<Rightarrow> Some e
         | None \<Rightarrow>
             if progress_in_range progress then None
             else Some (bad_request ''Progress must be a number between 0 and 100'')))"

definition updateGoal ::
  "(string \<Rightarrow> bool) option \<Rightarrow> libs \<Rightarrow> world \<Rightarrow> db \<Rightarrow> string \<Rightarrow> string \<Rightarrow> js_val \<Rightarrow> js_val \<Rightarrow> js_val
     \<Rightarrow> js_val \<Rightarrow> (js_error + goal_doc) \<times> db" where
  "updateGoal isValidObjectId L W d goalId userId title description targetDate progress =
     (let sanitizedTitle = sanitizeString title;
          sanitizedDescription = sanitizeString description
      in case require_ObjectId isValidObjectId goalId ''Invalid goalId provided'' of
           Inl e \<Rightarrow> (Inl e, d)
         | Inr u \<Rightarrow>
             (case require_ObjectId isValidObjectId userId ''Invalid userId provided'' of
                Inl e \<Rightarrow> (Inl e, d)
              | Inr u' \<Rightarrow>
                  (case updateGoal_validate L W sanitizedTitle sanitizedDescription targetDate
                          progress of
                     Some e \<Rightarrow> (Inl e, d)
                   | None \<Rightarrow>
                       (case updateGoal_try L W d goalId userId sanitizedTitle
                               sanitizedDescription targetDate progress of
                          (Inl e, d') \<Rightarrow> (Inl (goal_catch ''Failed to update goal'' e), d')
                        | (Inr g, d') \<Rightarrow> (Inr g, d')))))"

definition deleteGoal_try :: "db \<Rightarrow> string \<Rightarrow> string \<Rightarrow> (js_error + js_val) \<times> db" where
  "deleteGoal_try d goalId userId =
     (case User_findById d userId of
        None \<Rightarrow> (Inl (not_found ''User not found''), d)
      | Some user \<Rightarrow>
          (case Goal_findOne d goalId userId of
             None \<Rightarrow> (Inl (not_found ''Goal not found''), d)
           | Some goal \<Rightarrow>
               (Inr (JObj [(''message'', JStr ''Goal deleted successfully'')]),
                Goal_deleteOne d goalId userId)))"

definition deleteGoal ::
  "(string \<Rightarrow> bool) option \<Rightarrow> db \<Rightarrow> string \<Rightarrow> string \<Rightarrow> (js_error + js_val) \<times> db" where
  "deleteGoal isValidObjectId d goalId userId =
     (case require_ObjectId isValidObjectId goalId ''Invalid goalId provided'' of
        Inl e \<Rightarrow> (Inl e, d)
      | Inr u \<Rightarrow>
          (case require_ObjectId isValidObjectId userId ''Invalid userId provided'' of
             Inl e \<Rightarrow> (Inl e, d)
           | Inr u' \<Rightarrow>
               (case deleteGoal_try d goalId userId of
                  (Inl e, d') \<Rightarrow> (Inl (goal_catch ''Failed to delete goal'' e), d')
                | (Inr r, d') \<Rightarrow> (Inr r, d'))))"

section \<open>A concrete instance\<close>

text \<open>
  An instance of the parameters on which the model is evaluated: a transparent stand-in
  for the hash (the salt followed by the data, salts of four units), tokens decoded from a
  table, a signature that joins the secret and the user identifier, and the usual shape
  of an object identifier (24 hexadecimal digits) for a module that does export
  \<open>isValidObjectId\<close>.
\<close>

definition hex_digit :: "char \<Rightarrow> bool" where
  "hex_digit c =
     (let n = (of_char c :: nat)
      in (48 \<le> n \<and> n \<le> 57) \<or> (97 \<le> n \<and> n \<le> 102) \<or> (65 \<le> n \<and> n \<le> 70))"

definition objectId_shape :: "string \<Rightarrow> bool" where
  "objectId_shape s = (length s = 24 \<and> list_all hex_digit s)"

definition id_alice :: string where
  "id_alice = ''64b0000000000000000000a1''"

definition id_bob :: string where
  "id_bob = ''64b0000000000000000000b2''"

definition id_ghost :: string where
  "id_ghost = ''64b0000000000000000000ff''"

definition id_goal_a :: string where
  "id_goal_a = ''64c0000000000000000000a1''"

definition id_goal_b :: string where
  "id_goal_b = ''64c0000000000000000000b2''"

definition sample_claims :: "js_val \<Rightarrow> int \<Rightarrow> int \<Rightarrow> jwt_claims" where
  "sample_claims uid t e =
     \<lparr>c_userId = uid, c_email = JStr ''a@b.com'', c_iat = t, c_exp = Some e\<rparr>"

definition sample_mac :: "string \<Rightarrow> jwt_claims \<Rightarrow> string" where
  "sample_mac k c = k @ ''/'' @ (case c_userId c of JStr u \<Rightarrow> u | _ \<Rightarrow> [])"

definition sample_tokens :: "(string \<times> jws) list" where
  "sample_tokens =
     [(''tok.live'',
         \<lparr>jws_payload = sample_claims (JStr id_alice) 1000 2000,
          jws_signature = ''secret/'' @ id_alice\<rparr>),
      (''tok.secret/'' @ id_alice,
         \<lparr>jws_payload = sample_claims (JStr id_alice) 1000 1000,
          jws_signature = ''secret/'' @ id_alice\<rparr>),
      (''tok.forged'',
         \<lparr>jws_payload = sample_claims (JStr id_alice) 1000 2000,
          jws_signature = ''guess''\<rparr>),
      (''tok.forged.old'',
         \<lparr>jws_payload = sample_claims (JStr id_alice) 1000 1200,
          jws_signature = ''guess''\<rparr>),
      (''tok.anonymous'',
         \<lparr>jws_payload = sample_claims JUndefined 1000 2000,
          jws_signature = ''secret/''\<rparr>),
      (''tok.ghost'',
         \<lparr>jws_payload = sample_claims (JStr id_ghost) 1000 2000,
          jws_signature = ''secret/'' @ id_ghost\<rparr>),
      (''tok.malformed'',
         \<lparr>jws_payload = sample_claims (JStr ''not-an-id'') 1000 2000,
          jws_signature = ''secret/not-an-id''\<rparr>)]"

definition sample_libs :: "bool \<Rightarrow> libs" where
  "sample_libs qs =
     \<lparr>bcrypt_hash = (\<lambda>pw salt. salt @ pw),
      bcrypt_salt_of = (\<lambda>h. if 4 \<le> length h then Some (take 4 h) else None),
      jwt_encode = (\<lambda>j. ''tok.'' @ jws_signature j),
      jwt_decode = map_of sample_tokens,
      jwt_mac = sample_mac,
      date_parse = (\<lambda>s. None),
      query_setters = qs\<rparr>"

definition sample_env :: env where
  "sample_env = \<lparr>JWT_SECRET = Some ''secret'', JWT_EXPIRES_IN = None\<rparr>"

definition sample_world :: world where
  "sample_world =
     \<lparr>now = 1500, Date_now = 1500000, genSalt_service = ''s1s1'', genSalt_hook = ''s2s2'',
      new_ObjectId = ''64b0000000000000000000c3''\<rparr>"

definition alice :: user_doc where
  "alice =
     \<lparr>u_id = id_alice, u_username = ''alice01'', u_email = ''a@b.com'',
      u_password = ''s2s2s1s1longpass1'', u_createdAt = 900000, u_updatedAt = 900000\<rparr>"

definition bob :: user_doc where
  "bob =
     \<lparr>u_id = id_bob, u_username = ''bob_02'', u_email = ''bob@c.org'',
      u_password = ''s2s2s1s1hunter2hunter2'', u_createdAt = 950000, u_updatedAt = 950000\<rparr>"

definition goal_a :: goal_doc where
  "goal_a =
     \<lparr>g_id = id_goal_a, g_userId = id_alice, g_title = ''Run 10k'',
      g_description = ''weekly'', g_targetDate = 5000000, g_progress = 40,
      g_createdAt = 960000, g_updatedAt = 960000\<rparr>"

definition goal_b :: goal_doc where
  "goal_b =
     \<lparr>g_id = id_goal_b, g_userId = id_bob, g_title = ''Swim'',
      g_description = ''laps'', g_targetDate = 6000000, g_progress = 10,
      g_createdAt = 970000, g_updatedAt = 970000\<rparr>"

definition sample_db :: db where
  "sample_db = \<lparr>users = [alice, bob], goals = [goal_a, goal_b]\<rparr>"

definition empty_db :: db where
  "empty_db = \<lparr>users = [], goals = []\<rparr>"

section \<open>Facts about lists and strings\<close>

lemma find_append:
  "find P (xs @ ys) = (case find P xs of None \<Rightarrow> find P ys | Some x \<Rightarrow> Some x)"
  by (induction xs) auto

lemma find_Some_iff_ex: "(find P xs \<noteq> None) = list_ex P xs"
  by (induction xs) auto

lemma find_None_iff_list_all: "(find P xs = None) = list_all (\<lambda>x. \<not> P x) xs"
  by (induction xs) auto

lemma find_map_replace:
  assumes "find P xs = Some y" "P s" "\<And>x. P x \<Longrightarrow> k x"
  shows "find P (map (\<lambda>x. if k x then s else x) xs) = Some s"
  using assms by (induction xs) (auto split: if_splits)

lemma dropWhile_fixed: "xs = [] \<or> \<not> P (hd xs) \<Longrightarrow> dropWhile P xs = xs"
  by (cases xs) auto

lemma hd_dropWhile_rev_keep:
  assumes "xs \<noteq> []" "\<not> P (hd xs)"
  shows "rev (dropWhile P (rev xs)) \<noteq> [] \<and> hd (rev (dropWhile P (rev xs))) = hd xs"
proof -
  obtain x ys where xs: "xs = x # ys" using assms(1) by (cases xs) auto
  have px: "\<not> P x" using assms(2) xs by simp
  have "dropWhile P (rev ys @ [x]) = dropWhile P (rev ys) @ [x]"
    using px by (simp add: dropWhile_append)
  then show ?thesis using xs by simp
qed

lemma trim_no_lead: "trim s = [] \<or> \<not> isWhiteSpace (hd (trim s))"
proof (cases "dropWhile isWhiteSpace s = []")
  case True
  show ?thesis unfolding trim_def True by simp
next
  case False
  then have "\<not> isWhiteSpace (hd (dropWhile isWhiteSpace s))" by (rule hd_dropWhile)
  with False show ?thesis
    unfolding trim_def using hd_dropWhile_rev_keep by metis
qed

lemma trim_no_trail: "trim s = [] \<or> \<not> isWhiteSpace (last (trim s))"
proof -
  let ?d = "dropWhile isWhiteSpace (rev (dropWhile isWhiteSpace s))"
  show ?thesis
  proof (cases "?d = []")
    case True
    show ?thesis unfolding trim_def True by simp
  next
    case False
    then have "\<not> isWhiteSpace (hd ?d)" by (rule hd_dropWhile)
    with False show ?thesis by (simp add: trim_def last_rev)
  qed
qed

lemma trim_idem: "trim (trim s) = trim s"
proof -
  have a: "dropWhile isWhiteSpace (trim s) = trim s"
    using trim_no_lead [of s] by (rule dropWhile_fixed)
  have "rev (trim s) = [] \<or> \<not> isWhiteSpace (hd (rev (trim s)))"
    using trim_no_trail [of s] by (auto simp: hd_rev)
  then have b: "dropWhile isWhiteSpace (rev (trim s)) = rev (trim s)"
    by (rule dropWhile_fixed)
  show ?thesis
    unfolding trim_def [of "trim s"] a b by simp
qed

lemma of_char_lower: "(of_char (toLowerCase_char c) :: nat) =
   (if (65 \<le> (of_char c :: nat) \<and> (of_char c :: nat) \<le> 90)
       \<or> (192 \<le> (of_char c :: nat) \<and> (of_char c :: nat) \<le> 222 \<and> (of_char c :: nat) \<noteq> 215)
    then of_char c + 32 else of_char c)"
  by (auto simp: toLowerCase_char_def Let_def)

lemma toLowerCase_char_idem: "toLowerCase_char (toLowerCase_char c) = toLowerCase_char c"
proof -
  have "\<not> ((65 \<le> (of_char (toLowerCase_char c) :: nat) \<and> (of_char (toLowerCase_char c) :: nat) \<le> 90)
       \<or> (192 \<le> (of_char (toLowerCase_char c) :: nat) \<and> (of_char (toLowerCase_char c) :: nat) \<le> 222
           \<and> (of_char (toLowerCase_char c) :: nat) \<noteq> 215))"
    unfolding of_char_lower by auto
  then show ?thesis
    unfolding toLowerCase_char_def [of "toLowerCase_char c"] Let_def by auto
qed

lemma toLowerCase_idem: "toLowerCase (toLowerCase s) = toLowerCase s"
  by (simp add: toLowerCase_def toLowerCase_char_idem)

lemma isWhiteSpace_lower: "isWhiteSpace (toLowerCase_char c) = isWhiteSpace c"
  unfolding isWhiteSpace_def of_char_lower by auto

lemma dropWhile_ws_lower:
  "dropWhile isWhiteSpace (toLowerCase s) = toLowerCase (dropWhile isWhiteSpace s)"
  by (induction s) (auto simp: toLowerCase_def isWhiteSpace_lower)

lemma rev_lower: "rev (toLowerCase s) = toLowerCase (rev s)"
  by (simp add: toLowerCase_def rev_map)

lemma trim_toLowerCase: "trim (toLowerCase s) = toLowerCase (trim s)"
  by (simp add: trim_def dropWhile_ws_lower rev_lower)

lemma email_setters_lowercased: "toLowerCase (email_setters s) = email_setters s"
  by (simp add: email_setters_def trim_toLowerCase [symmetric] toLowerCase_idem)

lemma email_setters_trimmed: "trim (email_setters s) = email_setters s"
  by (simp add: email_setters_def trim_idem)

text \<open>
  A header made of \<open>Bearer\<close>, one space and a token without a space splits into these
  two parts.
\<close>

lemma split_space_no_space: "CHR '' '' \<notin> set w \<Longrightarrow> split_space w = [w]"
  by (induction w) auto

lemma split_space_append:
  "CHR '' '' \<notin> set w \<Longrightarrow> split_space (w @ CHR '' '' # r) = w # split_space r"
  by (induction w) (auto split: list.splits)

lemma split_space_Bearer:
  "CHR '' '' \<notin> set token \<Longrightarrow> split_space (''Bearer '' @ token) = [''Bearer'', token]"
  using split_space_append [of "''Bearer''" token] by (simp add: split_space_no_space)

lemma isValidEmail_nonempty:
  "isValidEmail (JStr s) \<Longrightarrow> s \<noteq> [] \<and> trim s \<noteq> []"
  by (auto simp: isValidEmail_def trim_def split: if_splits)

text \<open>
  Every unit of a string that an expression matches is in the class of one of its
  elements; so a well-formed email has no white space, and the setters of the schema only
  change its letter case.
\<close>

lemma rx_match_units:
  "rx_match rs s \<Longrightarrow> list_all (\<lambda>c. list_ex (\<lambda>r. rx_class r c) rs) s"
proof (induction rs s rule: rx_match.induct)
  case (1 s)
  then show ?case by simp
next
  case (2 p rs s)
  then show ?case by (cases s) (auto simp: list_all_iff list_ex_iff)
next
  case (3 p rs s)
  then show ?case by (cases s) (auto simp: list_all_iff list_ex_iff)
qed

lemma email_no_white_space:
  assumes "isValidEmail (JStr s)"
  shows "list_all (\<lambda>c. \<not> isWhiteSpace c) s"
proof -
  have "rx_match emailRegex s"
    using assms by (simp add: isValidEmail_def split: if_splits)
  from rx_match_units [OF this]
  have "list_all (\<lambda>c. not_at_ws c \<or> c = CHR ''@'' \<or> c = CHR ''.'') s"
    by (auto simp: emailRegex_def list_all_iff)
  moreover have "\<not> isWhiteSpace CHR ''@''" "\<not> isWhiteSpace CHR ''.''"
    by (simp_all add: isWhiteSpace_def)
  ultimately show ?thesis
    by (auto simp: list_all_iff not_at_ws_def)
qed

lemma trim_no_white_space: "list_all (\<lambda>c. \<not> isWhiteSpace c) s \<Longrightarrow> trim s = s"
proof -
  assume a: "list_all (\<lambda>c. \<not> isWhiteSpace c) s"
  have 1: "dropWhile isWhiteSpace s = s"
    using a by (cases s) auto
  have "list_all (\<lambda>c. \<not> isWhiteSpace c) (rev s)"
    using a by (simp add: list_all_iff)
  then have 2: "dropWhile isWhiteSpace (rev s) = rev s"
    by (cases "rev s") auto
  show ?thesis by (simp add: trim_def 1 2)
qed

lemma email_setters_valid_email:
  "isValidEmail (JStr s) \<Longrightarrow> email_setters s = toLowerCase s"
  using trim_no_white_space [OF email_no_white_space]
  by (simp add: email_setters_def trim_toLowerCase)

section \<open>Login\<close>

lemma formatted_structured: "formatted (structured m c t) = (m \<noteq> [] \<and> c \<noteq> 0)"
  by (simp add: formatted_def structured_def truthy_str_def truthy_num_def)

lemma login_validated:
  assumes "isValidEmail (JStr (sanitizeString email))" "8 \<le> length (sanitizeString password)"
  shows "login L E W d email password =
     (case login_try L E W d (sanitizeString email) (sanitizeString password) of
        Inl e \<Rightarrow> Inl (login_catch e) | Inr r \<Rightarrow> Inr r)"
proof -
  have "sanitizeString email \<noteq> []" "trim (sanitizeString email) \<noteq> []"
    using isValidEmail_nonempty [OF assms(1)] by simp_all
  moreover have "sanitizeString password \<noteq> []" "\<not> length (sanitizeString password) < 8"
    using assms(2) by auto
  ultimately show ?thesis
    using assms(1) by (simp add: login_def Let_def)
qed

lemma login_no_credentials:
  assumes "isValidEmail (JStr (sanitizeString email))" "8 \<le> length (sanitizeString password)"
      and "findByCredentials L d (sanitizeString email) (sanitizeString password) = None"
  shows "login L E W d email password = Inl (not_found ''Invalid login credentials'')"
  using assms(3)
  by (simp add: login_validated [OF assms(1,2)] login_try_def login_catch_def not_found_def
      formatted_structured)

text \<open>
  C3. Two login attempts that pass the input validation, one for an email the store does
  not hold and one for a stored email with a password that does not match, fail with the
  same value: message \<open>Invalid login credentials\<close>, code 404, status text
  \<open>Not Found\<close>.
\<close>

theorem login_failures_indistinguishable:
  assumes "isValidEmail (JStr (sanitizeString email1))"
      and "8 \<le> length (sanitizeString password1)"
      and "isValidEmail (JStr (sanitizeString email2))"
      and "8 \<le> length (sanitizeString password2)"
      and "User_findOne_email L d (sanitizeString email1) = None"
      and "User_findOne_email L d (sanitizeString email2) = Some user"
      and "\<not> bcrypt_compare L (sanitizeString password2) (u_password user)"
  shows "login L E W d email1 password1 =
           Inl \<lparr>name = None, message = Some ''Invalid login credentials'', code = Some 404,
                statusText = Some ''Not Found''\<rparr>
         \<and> login L E W d email2 password2 = login L E W d email1 password1"
proof -
  have a: "findByCredentials L d (sanitizeString email1) (sanitizeString password1) = None"
    using assms(5) by (simp add: findByCredentials_def)
  have b: "findByCredentials L d (sanitizeString email2) (sanitizeString password2) = None"
    using assms(6,7) by (simp add: findByCredentials_def)
  show ?thesis
    using login_no_credentials [OF assms(1,2) a] login_no_credentials [OF assms(3,4) b]
    by (simp add: not_found_def structured_def)
qed

theorem login_failures_indistinguishable_witness:
  "login (sample_libs False) sample_env sample_world sample_db (JStr ''nobody@x.io'') (JStr ''longpass1'') =
           Inl \<lparr>name = None, message = Some ''Invalid login credentials'', code = Some 404,
                statusText = Some ''Not Found''\<rparr>
   \<and> login (sample_libs False) sample_env sample_world sample_db (JStr ''a@b.com'') (JStr ''wrongpass1'')
      = login (sample_libs False) sample_env sample_world sample_db (JStr ''nobody@x.io'') (JStr ''longpass1'')"
proof -
  have h1: "isValidEmail (JStr (sanitizeString (JStr ''nobody@x.io'')))" by code_simp
  have h2: "8 \<le> length (sanitizeString (JStr ''longpass1''))" by code_simp
  have h3: "isValidEmail (JStr (sanitizeString (JStr ''a@b.com'')))" by code_simp
  have h4: "8 \<le> length (sanitizeString (JStr ''wrongpass1''))" by code_simp
  have h5: "User_findOne_email (sample_libs False) sample_db (sanitizeString (JStr ''nobody@x.io'')) = None"
    by code_simp
  have h6: "User_findOne_email (sample_libs False) sample_db (sanitizeString (JStr ''a@b.com'')) = Some alice"
    by code_simp
  have h7: "\<not> bcrypt_compare (sample_libs False) (sanitizeString (JStr ''wrongpass1'')) (u_password alice)"
    by code_simp
  show ?thesis
    by (rule login_failures_indistinguishable [OF h1 h2 h3 h4 h5 h6 h7])
qed

text \<open>
  When \<open>findByCredentials\<close> returns a user and the secret is set, \<open>login\<close> returns a
  token which, decoded as it was encoded and verified before its expiry, yields claims
  that carry the identifier of that user.
\<close>

theorem login_token_carries_id:
  assumes "isValidEmail (JStr (sanitizeString email))"
      and "8 \<le> length (sanitizeString password)"
      and "findByCredentials L d (sanitizeString email) (sanitizeString password) = Some user"
      and "JWT_SECRET E = Some k" and "k \<noteq> []"
      and "jwt_decode L (jwt_encode L (signed_jws L k (now W) (expiresIn E) (JStr (u_id user))
              (JStr (u_email user))))
           = Some (signed_jws L k (now W) (expiresIn E) (JStr (u_id user)) (JStr (u_email user)))"
      and "t < now W + expiresIn E"
  shows "\<exists>token claims.
           login L E W d email password =
             Inr (JObj [(''message'', JStr ''Login successful''), (''token'', JStr token),
                        (''user'', user_view user)])
         \<and> jwt_verify L (JWT_SECRET E) t token = Inr claims
         \<and> c_userId claims = JStr (u_id user)"
proof -
  define j where "j = signed_jws L k (now W) (expiresIn E) (JStr (u_id user)) (JStr (u_email user))"
  have l: "login L E W d email password =
             Inr (JObj [(''message'', JStr ''Login successful''),
                        (''token'', JStr (jwt_encode L j)), (''user'', user_view user)])"
    using assms(3,4,5)
    by (simp add: login_validated [OF assms(1,2)] login_try_def jwt_sign_def j_def)
  have v: "jwt_verify L (JWT_SECRET E) t (jwt_encode L j) = Inr (jws_payload j)"
    using assms(4,5,6,7) by (simp add: jwt_verify_def j_def signed_jws_def Let_def)
  have "c_userId (jws_payload j) = JStr (u_id user)"
    by (simp add: j_def signed_jws_def Let_def)
  with l v show ?thesis by blast
qed

theorem login_token_carries_id_witness:
  "\<exists>token claims.
     login (sample_libs True) (sample_env\<lparr>JWT_EXPIRES_IN := Some 0\<rparr>) (sample_world\<lparr>now := 1000\<rparr>)
       \<lparr>users = [alice\<lparr>u_password := ''s2s2longpass1''\<rparr>], goals = []\<rparr>
       (JStr ''a@b.com'') (JStr ''longpass1'') =
       Inr (JObj [(''message'', JStr ''Login successful''), (''token'', JStr token),
                  (''user'', user_view (alice\<lparr>u_password := ''s2s2longpass1''\<rparr>))])
   \<and> jwt_verify (sample_libs True) (JWT_SECRET (sample_env\<lparr>JWT_EXPIRES_IN := Some 0\<rparr>)) 999 token
       = Inr claims
   \<and> c_userId claims = JStr id_alice"
proof -
  have 1: "isValidEmail (JStr (sanitizeString (JStr ''a@b.com'')))" by code_simp
  have 2: "8 \<le> length (sanitizeString (JStr ''longpass1''))" by code_simp
  have 3: "findByCredentials (sample_libs True)
             \<lparr>users = [alice\<lparr>u_password := ''s2s2longpass1''\<rparr>], goals = []\<rparr>
             (sanitizeString (JStr ''a@b.com'')) (sanitizeString (JStr ''longpass1''))
           = Some (alice\<lparr>u_password := ''s2s2longpass1''\<rparr>)"
    by code_simp
  have 4: "JWT_SECRET (sample_env\<lparr>JWT_EXPIRES_IN := Some 0\<rparr>) = Some ''secret''" by code_simp
  have 5: "''secret'' \<noteq> []" by simp
  have 6: "jwt_decode (sample_libs True) (jwt_encode (sample_libs True)
             (signed_jws (sample_libs True) ''secret'' (now (sample_world\<lparr>now := 1000\<rparr>))
                (expiresIn (sample_env\<lparr>JWT_EXPIRES_IN := Some 0\<rparr>))
                (JStr (u_id (alice\<lparr>u_password := ''s2s2longpass1''\<rparr>)))
                (JStr (u_email (alice\<lparr>u_password := ''s2s2longpass1''\<rparr>)))))
           = Some (signed_jws (sample_libs True) ''secret'' (now (sample_world\<lparr>now := 1000\<rparr>))
                (expiresIn (sample_env\<lparr>JWT_EXPIRES_IN := Some 0\<rparr>))
                (JStr (u_id (alice\<lparr>u_password := ''s2s2longpass1''\<rparr>)))
                (JStr (u_email (alice\<lparr>u_password := ''s2s2longpass1''\<rparr>))))"
    by code_simp
  have 7: "(999::int) < now (sample_world\<lparr>now := 1000\<rparr>)
                 + expiresIn (sample_env\<lparr>JWT_EXPIRES_IN := Some 0\<rparr>)"
    by code_simp
  have i: "u_id (alice\<lparr>u_password := ''s2s2longpass1''\<rparr>) = id_alice" by code_simp
  show ?thesis
    using login_token_carries_id [OF 1 2 3 4 5 6 7] i by simp
qed

section \<open>Registration\<close>

lemma User_save_failure_keeps_store: "User_save L W d doc = (Inl e, d') \<Longrightarrow> d' = d"
  by (auto simp: User_save_def Let_def split: if_splits)

lemma register_try_failure_keeps_store:
  "register_try L W d su se sp = (Inl e, d') \<Longrightarrow> d' = d"
  by (auto simp: register_try_def Let_def split: option.splits prod.splits sum.splits
      dest: User_save_failure_keeps_store)

lemma register_failure_keeps_store:
  "register L W d username email password = (Inl e, d') \<Longrightarrow> d' = d"
  by (auto simp: register_def Let_def split: if_splits prod.splits sum.splits
      dest: register_try_failure_keeps_store)

lemma register_validated:
  assumes "trim (sanitizeString username) \<noteq> []"
      and "isValidEmail (JStr (sanitizeString email))"
      and "8 \<le> length (sanitizeString password)"
  shows "register L W d username email password =
     (case register_try L W d (sanitizeString username) (sanitizeString email)
             (sanitizeString password) of
        (Inl e, d') \<Rightarrow> (Inl (register_catch e), d')
      | (Inr r, d') \<Rightarrow> (Inr r, d'))"
proof -
  have "sanitizeString username \<noteq> []"
    using assms(1) by (auto simp: trim_def)
  moreover have "sanitizeString email \<noteq> []" "trim (sanitizeString email) \<noteq> []"
    using isValidEmail_nonempty [OF assms(2)] by simp_all
  moreover have "sanitizeString password \<noteq> []" "\<not> length (sanitizeString password) < 8"
    using assms(3) by auto
  ultimately show ?thesis
    using assms(1,2) by (simp add: register_def Let_def)
qed

text \<open>What a successful registration did.\<close>

lemma register_success:
  assumes "register L W d username email password = (Inr r, d')"
  defines "doc \<equiv> User_new W (sanitizeString username) (sanitizeString email)
                    (bcrypt_hash L (sanitizeString password) (genSalt_service W))"
  defines "saved \<equiv> doc\<lparr>u_password := bcrypt_hash L (u_password doc) (genSalt_hook W)\<rparr>"
  shows "isValidEmail (JStr (sanitizeString email))"
    and "8 \<le> length (sanitizeString password)"
    and "User_findOne_email L d (sanitizeString email) = None"
    and "r = user_view saved"
    and "d' = d\<lparr>users := users d @ [saved]\<rparr>"
  using assms(1) unfolding doc_def saved_def
  by (auto simp: register_def register_try_def User_save_def Let_def
      split: if_splits prod.splits sum.splits option.splits)

text \<open>
  C1. A login that follows a successful registration, with the same email and the same
  password, does not succeed: it fails with the credentials error. \<open>register\<close> hashes
  the password and the save hook of the model hashes the result again, so the store holds
  the hash of a hash, and \<open>findByCredentials\<close> compares the password against it. The
  hypothesis on the library says that this comparison fails, as it does for bcrypt.
\<close>

theorem register_then_login_rejected:
  assumes reg: "register L W d username email password = (Inr r, d')"
      and no_match: "\<not> bcrypt_compare L (sanitizeString password)
              (bcrypt_hash L (bcrypt_hash L (sanitizeString password) (genSalt_service W))
                 (genSalt_hook W))"
  shows "login L E W' d' email password =
           Inl \<lparr>name = None, message = Some ''Invalid login credentials'', code = Some 404,
                statusText = Some ''Not Found''\<rparr>"
proof -
  define doc where "doc = User_new W (sanitizeString username) (sanitizeString email)
                    (bcrypt_hash L (sanitizeString password) (genSalt_service W))"
  define saved where "saved = doc\<lparr>u_password := bcrypt_hash L (u_password doc) (genSalt_hook W)\<rparr>"
  note s = register_success [OF reg, folded doc_def, folded saved_def]
  have pw: "u_password saved =
      bcrypt_hash L (bcrypt_hash L (sanitizeString password) (genSalt_service W)) (genSalt_hook W)"
    by (simp add: saved_def doc_def User_new_def)
  have "findByCredentials L d' (sanitizeString email) (sanitizeString password) = None"
    using s(3) no_match pw
    by (auto simp: findByCredentials_def User_findOne_email_def s(5) find_append
        split: option.splits if_splits)
  from login_no_credentials [OF s(1) s(2) this]
  show ?thesis by (simp add: not_found_def structured_def)
qed

text \<open>
  On the instance: registering \<open>alice01\<close> in an empty store and logging in with the
  same credentials.
\<close>

theorem register_then_login_rejected_witness:
  "login (sample_libs True) sample_env (sample_world\<lparr>now := 1600\<rparr>)
      (snd (register (sample_libs True) sample_world empty_db
              (JStr ''alice01'') (JStr ''a@b.com'') (JStr ''longpass1'')))
      (JStr ''a@b.com'') (JStr ''longpass1'') =
   Inl \<lparr>name = None, message = Some ''Invalid login credentials'', code = Some 404,
        statusText = Some ''Not Found''\<rparr>"
proof -
  have h1: "register (sample_libs True) sample_world empty_db
              (JStr ''alice01'') (JStr ''a@b.com'') (JStr ''longpass1'') =
            (Inr (user_view \<lparr>u_id = new_ObjectId sample_world, u_username = ''alice01'',
                             u_email = ''a@b.com'', u_password = ''s2s2s1s1longpass1'',
                             u_createdAt = 1500000, u_updatedAt = 1500000\<rparr>),
             snd (register (sample_libs True) sample_world empty_db
                    (JStr ''alice01'') (JStr ''a@b.com'') (JStr ''longpass1'')))"
    by code_simp
  have h2: "\<not> bcrypt_compare (sample_libs True) (sanitizeString (JStr ''longpass1''))
              (bcrypt_hash (sample_libs True)
                 (bcrypt_hash (sample_libs True) (sanitizeString (JStr ''longpass1''))
                    (genSalt_service sample_world))
                 (genSalt_hook sample_world))"
    by code_simp
  show ?thesis
    by (rule register_then_login_rejected [OF h1 h2])
qed

text \<open>
  A registration whose input passes the validation, whose email the pre-check does not
  find, whose document passes the validators of the schema and collides with no unique
  index succeeds: it returns the view of the saved record and appends that record.
\<close>

lemma register_succeeds:
  assumes "trim (sanitizeString username) \<noteq> []"
      and "isValidEmail (JStr (sanitizeString email))"
      and "8 \<le> length (sanitizeString password)"
      and "User_findOne_email L d (sanitizeString email) = None"
      and "User_valid (User_new W (sanitizeString username) (sanitizeString email)
                    (bcrypt_hash L (sanitizeString password) (genSalt_service W)))"
      and "\<not> list_ex (\<lambda>x. u_id x = new_ObjectId W
                           \<or> u_username x = trim (sanitizeString username)
                           \<or> u_email x = email_setters (sanitizeString email)) (users d)"
  defines "saved \<equiv> (User_new W (sanitizeString username) (sanitizeString email)
                      (bcrypt_hash L (sanitizeString password) (genSalt_service W)))
                    \<lparr>u_password :=
                       bcrypt_hash L (bcrypt_hash L (sanitizeString password) (genSalt_service W))
                         (genSalt_hook W)\<rparr>"
  shows "register L W d username email password
           = (Inr (user_view saved), d\<lparr>users := users d @ [saved]\<rparr>)"
proof -
  have "register_try L W d (sanitizeString username) (sanitizeString email)
          (sanitizeString password)
        = (Inr (user_view saved), d\<lparr>users := users d @ [saved]\<rparr>)"
    using assms(4,5,6)
    by (simp add: register_try_def User_save_def Let_def User_new_def saved_def)
  then show ?thesis
    using assms(1,2,3) by (simp add: register_validated)
qed

text \<open>
  C7. The value a successful \<open>register\<close> returns has exactly the keys \<open>username\<close>,
  \<open>email\<close>, \<open>id\<close>, \<open>createdAt\<close> and \<open>updatedAt\<close>; it has no \<open>password\<close>; its
  email is the sanitized input after the schema's setters, which is lowercased and
  trimmed; and it is the view of the one record the call added to the store. And
  \<open>register\<close> does succeed: on every input that passes its validation, whose email the
  pre-check does not find and whose document the schema accepts and no unique index
  rejects, it returns such a value.
\<close>

theorem register_returns_public_view:
  "(register L W d username email password = (Inr r, d')
     \<longrightarrow> keys_of r = [''username'', ''email'', ''id'', ''createdAt'', ''updatedAt'']
         \<and> prop_of r ''password'' = JUndefined
         \<and> prop_of r ''email'' = JStr (email_setters (sanitizeString email))
         \<and> toLowerCase (email_setters (sanitizeString email)) = email_setters (sanitizeString email)
         \<and> trim (email_setters (sanitizeString email)) = email_setters (sanitizeString email)
         \<and> (\<exists>u. users d' = users d @ [u] \<and> r = user_view u))
   \<and> (trim (sanitizeString username) \<noteq> []
       \<and> isValidEmail (JStr (sanitizeString email))
       \<and> 8 \<le> length (sanitizeString password)
       \<and> User_findOne_email L d (sanitizeString email) = None
       \<and> User_valid (User_new W (sanitizeString username) (sanitizeString email)
                      (bcrypt_hash L (sanitizeString password) (genSalt_service W)))
       \<and> \<not> list_ex (\<lambda>x. u_id x = new_ObjectId W
                           \<or> u_username x = trim (sanitizeString username)
                           \<or> u_email x = email_setters (sanitizeString email)) (users d)
     \<longrightarrow> (\<exists>r' d''. register L W d username email password = (Inr r', d'')))"
proof -
  have A: "keys_of r = [''username'', ''email'', ''id'', ''createdAt'', ''updatedAt'']
         \<and> prop_of r ''password'' = JUndefined
         \<and> prop_of r ''email'' = JStr (email_setters (sanitizeString email))
         \<and> toLowerCase (email_setters (sanitizeString email)) = email_setters (sanitizeString email)
         \<and> trim (email_setters (sanitizeString email)) = email_setters (sanitizeString email)
         \<and> (\<exists>u. users d' = users d @ [u] \<and> r = user_view u)"
    if a: "register L W d username email password = (Inr r, d')"
    using register_success(4,5) [OF a]
    by (simp add: user_view_def keys_of_def prop_of_def User_new_def
        email_setters_lowercased email_setters_trimmed)
  have B: "\<exists>r' d''. register L W d username email password = (Inr r', d'')"
    if "trim (sanitizeString username) \<noteq> []"
      and "isValidEmail (JStr (sanitizeString email))"
      and "8 \<le> length (sanitizeString password)"
      and "User_findOne_email L d (sanitizeString email) = None"
      and "User_valid (User_new W (sanitizeString username) (sanitizeString email)
                      (bcrypt_hash L (sanitizeString password) (genSalt_service W)))"
      and "\<not> list_ex (\<lambda>x. u_id x = new_ObjectId W
                           \<or> u_username x = trim (sanitizeString username)
                           \<or> u_email x = email_setters (sanitizeString email)) (users d)"
    using register_succeeds [OF that] by blast
  show ?thesis
    using A B by blast
qed

text \<open>
  On the instance: registering \<open>carol_03\<close> with the email \<open>Carol@D.Net\<close> between
  spaces, in the sample store, where no record has that username or that email.
\<close>

theorem register_returns_public_view_witness:
  "register (sample_libs True) sample_world sample_db
      (JStr ''carol_03'') (JStr ''  Carol@D.Net '') (JStr ''longpass1'')
     = (Inr (JObj [(''username'', JStr ''carol_03''), (''email'', JStr ''carol@d.net''),
                   (''id'', JStr ''64b0000000000000000000c3''), (''createdAt'', JNum 1500000),
                   (''updatedAt'', JNum 1500000)]),
        \<lparr>users = [alice, bob,
                  \<lparr>u_id = ''64b0000000000000000000c3'', u_username = ''carol_03'',
                   u_email = ''carol@d.net'', u_password = ''s2s2s1s1longpass1'',
                   u_createdAt = 1500000, u_updatedAt = 1500000\<rparr>],
         goals = [goal_a, goal_b]\<rparr>)
   \<and> keys_of (JObj [(''username'', JStr ''carol_03''), (''email'', JStr ''carol@d.net''),
                   (''id'', JStr ''64b0000000000000000000c3''), (''createdAt'', JNum 1500000),
                   (''updatedAt'', JNum 1500000)])
     = [''username'', ''email'', ''id'', ''createdAt'', ''updatedAt'']
   \<and> prop_of (JObj [(''username'', JStr ''carol_03''), (''email'', JStr ''carol@d.net''),
                   (''id'', JStr ''64b0000000000000000000c3''), (''createdAt'', JNum 1500000),
                   (''updatedAt'', JNum 1500000)]) ''password'' = JUndefined
   \<and> email_setters (sanitizeString (JStr ''  Carol@D.Net '')) = ''carol@d.net''
   \<and> (\<exists>r' d''. register (sample_libs True) sample_world sample_db
                   (JStr ''carol_03'') (JStr ''  Carol@D.Net '') (JStr ''longpass1'')
                 = (Inr r', d''))"
proof -
  have h: "register (sample_libs True) sample_world sample_db
      (JStr ''carol_03'') (JStr ''  Carol@D.Net '') (JStr ''longpass1'')
     = (Inr (JObj [(''username'', JStr ''carol_03''), (''email'', JStr ''carol@d.net''),
                   (''id'', JStr ''64b0000000000000000000c3''), (''createdAt'', JNum 1500000),
                   (''updatedAt'', JNum 1500000)]),
        \<lparr>users = [alice, bob,
                  \<lparr>u_id = ''64b0000000000000000000c3'', u_username = ''carol_03'',
                   u_email = ''carol@d.net'', u_password = ''s2s2s1s1longpass1'',
                   u_createdAt = 1500000, u_updatedAt = 1500000\<rparr>],
         goals = [goal_a, goal_b]\<rparr>)"
    by code_simp
  have c: "trim (sanitizeString (JStr ''carol_03'')) \<noteq> []
       \<and> isValidEmail (JStr (sanitizeString (JStr ''  Carol@D.Net '')))
       \<and> 8 \<le> length (sanitizeString (JStr ''longpass1''))
       \<and> User_findOne_email (sample_libs True) sample_db
             (sanitizeString (JStr ''  Carol@D.Net '')) = None
       \<and> User_valid (User_new sample_world (sanitizeString (JStr ''carol_03''))
                      (sanitizeString (JStr ''  Carol@D.Net ''))
                      (bcrypt_hash (sample_libs True) (sanitizeString (JStr ''longpass1''))
                         (genSalt_service sample_world)))
       \<and> \<not> list_ex (\<lambda>x. u_id x = new_ObjectId sample_world
                           \<or> u_username x = trim (sanitizeString (JStr ''carol_03''))
                           \<or> u_email x = email_setters (sanitizeString (JStr ''  Carol@D.Net '')))
               (users sample_db)"
    by code_simp
  have e: "email_setters (sanitizeString (JStr ''  Carol@D.Net '')) = ''carol@d.net''"
    by code_simp
  note t = register_returns_public_view [where L = "sample_libs True" and W = sample_world
      and d = sample_db and username = "JStr ''carol_03''" and email = "JStr ''  Carol@D.Net ''"
      and password = "JStr ''longpass1''"]
  have 1: "keys_of (JObj [(''username'', JStr ''carol_03''), (''email'', JStr ''carol@d.net''),
                   (''id'', JStr ''64b0000000000000000000c3''), (''createdAt'', JNum 1500000),
                   (''updatedAt'', JNum 1500000)])
     = [''username'', ''email'', ''id'', ''createdAt'', ''updatedAt'']
   \<and> prop_of (JObj [(''username'', JStr ''carol_03''), (''email'', JStr ''carol@d.net''),
                   (''id'', JStr ''64b0000000000000000000c3''), (''createdAt'', JNum 1500000),
                   (''updatedAt'', JNum 1500000)]) ''password'' = JUndefined"
    using t h by blast
  have 2: "\<exists>r' d''. register (sample_libs True) sample_world sample_db
                   (JStr ''carol_03'') (JStr ''  Carol@D.Net '') (JStr ''longpass1'')
                 = (Inr r', d'')"
    using t c by blast
  show ?thesis
    using h 1 2 e by simp
qed

lemma findOne_email_stored:
  assumes "u \<in> set (users d)" "u_email u = email" "email_setters (u_email u) = u_email u"
  shows "User_findOne_email L d email \<noteq> None"
proof -
  have "list_ex (\<lambda>x. u_email x = (if query_setters L then email_setters email else email)) (users d)"
    using assms by (auto simp: list_ex_iff)
  then show ?thesis
    unfolding User_findOne_email_def find_Some_iff_ex .
qed

text \<open>
  C6. When the input passes the validation of \<open>register\<close> (a username that is not
  blank, a well-formed email, a password of at least 8 units) and its sanitized email is
  the email of a stored record (stored as the schema writes it), the call fails with
  \<open>User with this email already exists\<close>, code 400, whatever the username, and the
  store is unchanged. Every failure of \<open>register\<close> leaves the store unchanged.
\<close>

theorem register_duplicate_email_conflict:
  "(trim (sanitizeString username) \<noteq> []
      \<and> isValidEmail (JStr (sanitizeString email))
      \<and> 8 \<le> length (sanitizeString password)
      \<and> u \<in> set (users d)
      \<and> u_email u = sanitizeString email
      \<and> email_setters (u_email u) = u_email u
     \<longrightarrow> register L W d username email password =
           (Inl \<lparr>name = None, message = Some ''User with this email already exists'',
                 code = Some 400, statusText = Some ''Bad Request''\<rparr>, d))
   \<and> (\<forall>e d'. register L W d username email password = (Inl e, d') \<longrightarrow> d' = d)"
proof (intro conjI impI allI)
  assume a: "trim (sanitizeString username) \<noteq> []
      \<and> isValidEmail (JStr (sanitizeString email))
      \<and> 8 \<le> length (sanitizeString password)
      \<and> u \<in> set (users d)
      \<and> u_email u = sanitizeString email
      \<and> email_setters (u_email u) = u_email u"
  then have "User_findOne_email L d (sanitizeString email) \<noteq> None"
    using findOne_email_stored by blast
  then obtain x where "User_findOne_email L d (sanitizeString email) = Some x"
    by auto
  then have "register_try L W d (sanitizeString username) (sanitizeString email)
                (sanitizeString password)
             = (Inl (bad_request ''User with this email already exists''), d)"
    by (simp add: register_try_def)
  moreover have "register_catch (bad_request ''User with this email already exists'')
                 = bad_request ''User with this email already exists''"
    by (simp add: register_catch_def bad_request_def formatted_structured)
  ultimately show "register L W d username email password =
           (Inl \<lparr>name = None, message = Some ''User with this email already exists'',
                 code = Some 400, statusText = Some ''Bad Request''\<rparr>, d)"
    using a by (simp add: register_validated bad_request_def structured_def)
next
  fix e d'
  assume "register L W d username email password = (Inl e, d')"
  then show "d' = d" by (rule register_failure_keeps_store)
qed

theorem register_duplicate_email_conflict_witness:
  "register (sample_libs True) sample_world sample_db (JStr ''another_name'') (JStr ''a@b.com'')
      (JStr ''longpass1'') =
     (Inl \<lparr>name = None, message = Some ''User with this email already exists'',
           code = Some 400, statusText = Some ''Bad Request''\<rparr>, sample_db)
   \<and> snd (register (sample_libs True) sample_world sample_db (JStr ''x'') (JStr ''not-an-email'')
           (JStr ''longpass1'')) = sample_db"
proof -
  have h: "trim (sanitizeString (JStr ''another_name'')) \<noteq> []
      \<and> isValidEmail (JStr (sanitizeString (JStr ''a@b.com'')))
      \<and> 8 \<le> length (sanitizeString (JStr ''longpass1''))
      \<and> alice \<in> set (users sample_db)
      \<and> u_email alice = sanitizeString (JStr ''a@b.com'')
      \<and> email_setters (u_email alice) = u_email alice"
    by code_simp
  have f: "register (sample_libs True) sample_world sample_db (JStr ''x'') (JStr ''not-an-email'')
           (JStr ''longpass1'') =
           (Inl (bad_request ''Invalid email format''),
            snd (register (sample_libs True) sample_world sample_db (JStr ''x'')
                   (JStr ''not-an-email'') (JStr ''longpass1'')))"
    by code_simp
  have a: "register (sample_libs True) sample_world sample_db (JStr ''another_name'')
      (JStr ''a@b.com'') (JStr ''longpass1'') =
     (Inl \<lparr>name = None, message = Some ''User with this email already exists'',
           code = Some 400, statusText = Some ''Bad Request''\<rparr>, sample_db)"
    using register_duplicate_email_conflict
      [of "JStr ''another_name''" "JStr ''a@b.com''" "JStr ''longpass1''" alice sample_db
          "sample_libs True" sample_world] h
    by blast
  have b: "snd (register (sample_libs True) sample_world sample_db (JStr ''x'')
                   (JStr ''not-an-email'') (JStr ''longpass1'')) = sample_db"
    using register_duplicate_email_conflict
      [of "JStr ''x''" "JStr ''not-an-email''" "JStr ''longpass1''" alice sample_db
          "sample_libs True" sample_world] f
    by blast
  show ?thesis using a b by simp
qed

text \<open>
  The pre-check of \<open>register\<close> under a mapper that applies the setters of the path to
  a query filter: it finds every record whose stored email is the sanitized input after
  the setters, and the call fails with the conflict of code 400 before any write.
\<close>

lemma register_precheck_finds_stored_email:
  assumes "query_setters L"
      and "trim (sanitizeString username) \<noteq> []"
      and "isValidEmail (JStr (sanitizeString email))"
      and "8 \<le> length (sanitizeString password)"
      and "u \<in> set (users d)"
      and "u_email u = email_setters (sanitizeString email)"
  shows "User_findOne_email L d (sanitizeString email) \<noteq> None"
    and "register L W d username email password =
           (Inl (bad_request ''User with this email already exists''), d)"
proof -
  have "list_ex (\<lambda>x. u_email x = email_setters (sanitizeString email)) (users d)"
    using assms(5,6) by (auto simp: list_ex_iff)
  then show f: "User_findOne_email L d (sanitizeString email) \<noteq> None"
    using assms(1) unfolding User_findOne_email_def find_Some_iff_ex by simp
  then obtain x where "User_findOne_email L d (sanitizeString email) = Some x"
    by auto
  then have "register_try L W d (sanitizeString username) (sanitizeString email)
                (sanitizeString password)
             = (Inl (bad_request ''User with this email already exists''), d)"
    by (simp add: register_try_def)
  moreover have "register_catch (bad_request ''User with this email already exists'')
                 = bad_request ''User with this email already exists''"
    by (simp add: register_catch_def bad_request_def formatted_structured)
  ultimately show "register L W d username email password =
           (Inl (bad_request ''User with this email already exists''), d)"
    using assms(2,3,4) by (simp add: register_validated)
qed

text \<open>
  The write of a record that collides with a unique index is refused by the store, and
  the catch block of \<open>register\<close> rethrows the driver's error as it is.
\<close>

lemma register_unique_index_rejects:
  assumes "trim (sanitizeString username) \<noteq> []"
      and "isValidEmail (JStr (sanitizeString email))"
      and "8 \<le> length (sanitizeString password)"
      and "User_findOne_email L d (sanitizeString email) = None"
      and "User_valid (User_new W (sanitizeString username) (sanitizeString email)
                    (bcrypt_hash L (sanitizeString password) (genSalt_service W)))"
      and "list_ex (\<lambda>x. u_id x = new_ObjectId W \<or> u_username x = trim (sanitizeString username)
                \<or> u_email x = email_setters (sanitizeString email)) (users d)"
  shows "register L W d username email password = (Inl duplicate_key_error, d)"
proof -
  have "register_try L W d (sanitizeString username) (sanitizeString email)
           (sanitizeString password) = (Inl duplicate_key_error, d)"
    using assms(4,5,6) by (simp add: register_try_def User_save_def Let_def User_new_def)
  moreover have "register_catch duplicate_key_error = duplicate_key_error"
    by (simp add: register_catch_def duplicate_key_error_def formatted_def truthy_str_def
        truthy_num_def)
  ultimately show ?thesis
    using assms(1,2,3) by (simp add: register_validated)
qed

text \<open>
  C10, as the claim has it, fails. The sample store holds \<open>a@b.com\<close>; registering
  \<open>A@B.com\<close>, which differs from it only in letter case, is stopped by the pre-check,
  which finds the record, and fails with the conflict of code 400, not with the driver's
  error of code 11000.
\<close>

theorem register_case_variant_counterexample:
  "alice \<in> set (users sample_db) \<and> u_email alice = ''a@b.com''
   \<and> sanitizeString (JStr ''A@B.com'') = ''A@B.com''
   \<and> toLowerCase ''A@B.com'' = ''a@b.com''
   \<and> query_setters (sample_libs True)
   \<and> User_findOne_email (sample_libs True) sample_db (sanitizeString (JStr ''A@B.com''))
       = Some alice
   \<and> register (sample_libs True) sample_world sample_db (JStr ''alice02'') (JStr ''A@B.com'')
        (JStr ''longpass1'')
       = (Inl \<lparr>name = None, message = Some ''User with this email already exists'',
                code = Some 400, statusText = Some ''Bad Request''\<rparr>, sample_db)
   \<and> fst (register (sample_libs True) sample_world sample_db (JStr ''alice02'')
             (JStr ''A@B.com'') (JStr ''longpass1''))
       \<noteq> Inl \<lparr>name = Some ''MongoServerError'',
                message = Some ''E11000 duplicate key error'', code = Some 11000,
                statusText = None\<rparr>"
  by code_simp

text \<open>
  C10, amended. With the mapper of this repository, which applies the setters of the path
  to a query filter: when the sanitized email of a valid input differs at most in letter
  case from the email of a stored record, the pre-check of \<open>register\<close> finds that record
  and the call fails with \<open>User with this email already exists\<close>, code 400, the store
  unchanged. The driver's error is what \<open>register\<close> throws when the pre-check passes and
  the write collides with the unique index on the username: the error has a message and
  the code 11000, so it passes the test \<open>error.message && error.code\<close>, it has no
  \<open>statusText\<close>, and the catch block rethrows it as it is.
\<close>

theorem register_case_variant_conflict:
  "(query_setters L
      \<and> trim (sanitizeString username) \<noteq> []
      \<and> isValidEmail (JStr (sanitizeString email))
      \<and> 8 \<le> length (sanitizeString password)
      \<and> u \<in> set (users d)
      \<and> u_email u = toLowerCase (sanitizeString email)
     \<longrightarrow> User_findOne_email L d (sanitizeString email) \<noteq> None
         \<and> register L W d username email password =
             (Inl \<lparr>name = None, message = Some ''User with this email already exists'',
                   code = Some 400, statusText = Some ''Bad Request''\<rparr>, d))
   \<and> (trim (sanitizeString username) \<noteq> []
      \<and> isValidEmail (JStr (sanitizeString email))
      \<and> 8 \<le> length (sanitizeString password)
      \<and> User_findOne_email L d (sanitizeString email) = None
      \<and> User_valid (User_new W (sanitizeString username) (sanitizeString email)
                     (bcrypt_hash L (sanitizeString password) (genSalt_service W)))
      \<and> v \<in> set (users d)
      \<and> u_username v = trim (sanitizeString username)
     \<longrightarrow> register L W d username email password =
           (Inl \<lparr>name = Some ''MongoServerError'',
                 message = Some ''E11000 duplicate key error'', code = Some 11000,
                 statusText = None\<rparr>, d)
         \<and> formatted \<lparr>name = Some ''MongoServerError'',
                       message = Some ''E11000 duplicate key error'', code = Some 11000,
                       statusText = None\<rparr>
         \<and> \<not> is_structured \<lparr>name = Some ''MongoServerError'',
                       message = Some ''E11000 duplicate key error'', code = Some 11000,
                       statusText = None\<rparr>)"
proof -
  have A: "User_findOne_email L d (sanitizeString email) \<noteq> None
         \<and> register L W d username email password =
             (Inl \<lparr>name = None, message = Some ''User with this email already exists'',
                   code = Some 400, statusText = Some ''Bad Request''\<rparr>, d)"
    if a: "query_setters L" "trim (sanitizeString username) \<noteq> []"
      "isValidEmail (JStr (sanitizeString email))" "8 \<le> length (sanitizeString password)"
      "u \<in> set (users d)" "u_email u = toLowerCase (sanitizeString email)"
  proof -
    have e: "u_email u = email_setters (sanitizeString email)"
      using a(6) email_setters_valid_email [OF a(3)] by simp
    show ?thesis
      using register_precheck_finds_stored_email [OF a(1,2,3,4,5) e]
      by (simp add: bad_request_def structured_def)
  qed
  have B: "register L W d username email password =
           (Inl \<lparr>name = Some ''MongoServerError'',
                 message = Some ''E11000 duplicate key error'', code = Some 11000,
                 statusText = None\<rparr>, d)
         \<and> formatted \<lparr>name = Some ''MongoServerError'',
                       message = Some ''E11000 duplicate key error'', code = Some 11000,
                       statusText = None\<rparr>
         \<and> \<not> is_structured \<lparr>name = Some ''MongoServerError'',
                       message = Some ''E11000 duplicate key error'', code = Some 11000,
                       statusText = None\<rparr>"
    if b: "trim (sanitizeString username) \<noteq> []"
      "isValidEmail (JStr (sanitizeString email))" "8 \<le> length (sanitizeString password)"
      "User_findOne_email L d (sanitizeString email) = None"
      "User_valid (User_new W (sanitizeString username) (sanitizeString email)
                     (bcrypt_hash L (sanitizeString password) (genSalt_service W)))"
      "v \<in> set (users d)" "u_username v = trim (sanitizeString username)"
  proof -
    have "list_ex (\<lambda>x. u_id x = new_ObjectId W \<or> u_username x = trim (sanitizeString username)
                \<or> u_email x = email_setters (sanitizeString email)) (users d)"
      using b(6,7) by (auto simp: list_ex_iff)
    from register_unique_index_rejects [OF b(1,2,3,4,5) this]
    show ?thesis
      by (simp add: duplicate_key_error_def formatted_def truthy_str_def truthy_num_def
          is_structured_def)
  qed
  show ?thesis
    using A B by blast
qed

text \<open>
  On the instance: \<open>A@B.com\<close> against the stored \<open>a@b.com\<close>, and the taken username
  \<open>alice01\<close> with an email that no record has.
\<close>

theorem register_case_variant_conflict_witness:
  "register (sample_libs True) sample_world sample_db (JStr ''alice02'') (JStr ''A@B.com'')
        (JStr ''longpass1'')
     = (Inl \<lparr>name = None, message = Some ''User with this email already exists'',
              code = Some 400, statusText = Some ''Bad Request''\<rparr>, sample_db)
   \<and> User_findOne_email (sample_libs True) sample_db (sanitizeString (JStr ''A@B.com''))
       \<noteq> None
   \<and> User_findOne_email (sample_libs True) sample_db (sanitizeString (JStr ''new@b.com''))
       = None
   \<and> register (sample_libs True) sample_world sample_db (JStr ''alice01'') (JStr ''new@b.com'')
        (JStr ''longpass1'')
     = (Inl \<lparr>name = Some ''MongoServerError'',
              message = Some ''E11000 duplicate key error'', code = Some 11000,
              statusText = None\<rparr>, sample_db)"
proof -
  have a: "query_setters (sample_libs True)
      \<and> trim (sanitizeString (JStr ''alice02'')) \<noteq> []
      \<and> isValidEmail (JStr (sanitizeString (JStr ''A@B.com'')))
      \<and> 8 \<le> length (sanitizeString (JStr ''longpass1''))
      \<and> alice \<in> set (users sample_db)
      \<and> u_email alice = toLowerCase (sanitizeString (JStr ''A@B.com''))"
    by code_simp
  have b: "trim (sanitizeString (JStr ''alice01'')) \<noteq> []
      \<and> isValidEmail (JStr (sanitizeString (JStr ''new@b.com'')))
      \<and> 8 \<le> length (sanitizeString (JStr ''longpass1''))
      \<and> User_findOne_email (sample_libs True) sample_db (sanitizeString (JStr ''new@b.com''))
          = None
      \<and> User_valid (User_new sample_world (sanitizeString (JStr ''alice01''))
                     (sanitizeString (JStr ''new@b.com''))
                     (bcrypt_hash (sample_libs True) (sanitizeString (JStr ''longpass1''))
                        (genSalt_service sample_world)))
      \<and> alice \<in> set (users sample_db)
      \<and> u_username alice = trim (sanitizeString (JStr ''alice01''))"
    by code_simp
  have 1: "User_findOne_email (sample_libs True) sample_db (sanitizeString (JStr ''A@B.com''))
             \<noteq> None
         \<and> register (sample_libs True) sample_world sample_db (JStr ''alice02'')
             (JStr ''A@B.com'') (JStr ''longpass1'')
           = (Inl \<lparr>name = None, message = Some ''User with this email already exists'',
                    code = Some 400, statusText = Some ''Bad Request''\<rparr>, sample_db)"
    using register_case_variant_conflict [where L = "sample_libs True" and W = sample_world
        and d = sample_db and username = "JStr ''alice02''" and email = "JStr ''A@B.com''"
        and password = "JStr ''longpass1''" and u = alice] a
    by blast
  have 2: "register (sample_libs True) sample_world sample_db (JStr ''alice01'')
             (JStr ''new@b.com'') (JStr ''longpass1'')
           = (Inl \<lparr>name = Some ''MongoServerError'',
                    message = Some ''E11000 duplicate key error'', code = Some 11000,
                    statusText = None\<rparr>, sample_db)"
    using register_case_variant_conflict [where L = "sample_libs True" and W = sample_world
        and d = sample_db and username = "JStr ''alice01''" and email = "JStr ''new@b.com''"
        and password = "JStr ''longpass1''" and v = alice] b
    by blast
  show ?thesis using 1 2 b by simp
qed

section \<open>The authorization gate\<close>

lemma authenticate_bearer:
  assumes "split_space h = [''Bearer'', token]" "trim token \<noteq> []"
  shows "authenticate isValidObjectId L E W d (Some h) =
     (case authenticate_try isValidObjectId L E W d token of
        Inl e \<Rightarrow> authenticate_catch e | Inr r \<Rightarrow> r)"
proof -
  have "h \<noteq> []" using assms(1) by auto
  moreover have "token \<noteq> []" using assms(2) by (auto simp: trim_def)
  ultimately show ?thesis
    using assms by (simp add: authenticate_def Let_def)
qed

lemma authenticate_catch_responds: "authenticate_catch e \<noteq> Next ru"
  by (simp add: authenticate_catch_def respond_401_def)

lemma authenticate_try_Next:
  assumes "authenticate_try isValidObjectId L E W d token = Inr (Next ru)"
  shows "\<exists>decoded f user.
           jwt_verify L (JWT_SECRET E) (now W) token = Inr decoded
         \<and> truthy (c_userId decoded)
         \<and> isValidObjectId = Some f \<and> f (sanitizeString (c_userId decoded))
         \<and> User_findById d (sanitizeString (c_userId decoded)) = Some user
         \<and> ru = \<lparr>ru_userId = u_id user, ru_email = u_email user\<rparr>"
proof (cases "jwt_verify L (JWT_SECRET E) (now W) token")
  case (Inl e)
  then show ?thesis using assms by (simp add: authenticate_try_def)
next
  case (Inr decoded)
  show ?thesis
  proof (cases isValidObjectId)
    case None
    then show ?thesis
      using assms Inr
      by (simp add: authenticate_try_def Let_def respond_401_def call_isValidObjectId_def
          split: if_splits)
  next
    case (Some f)
    then show ?thesis
      using assms Inr
      by (simp add: authenticate_try_def Let_def respond_401_def call_isValidObjectId_def
          split: if_splits option.splits)
  qed
qed

lemma authenticate_Next_only_if:
  assumes "authenticate isValidObjectId L E W d authHeader = Next ru"
  shows "\<exists>h token decoded f user.
           authHeader = Some h \<and> split_space h = [''Bearer'', token] \<and> trim token \<noteq> []
         \<and> jwt_verify L (JWT_SECRET E) (now W) token = Inr decoded
         \<and> truthy (c_userId decoded)
         \<and> isValidObjectId = Some f \<and> f (sanitizeString (c_userId decoded))
         \<and> User_findById d (sanitizeString (c_userId decoded)) = Some user
         \<and> ru = \<lparr>ru_userId = u_id user, ru_email = u_email user\<rparr>"
proof -
  obtain h where h: "authHeader = Some h" "h \<noteq> []"
    using assms by (cases authHeader) (auto simp: authenticate_def respond_401_def split: if_splits)
  have len: "length (split_space h) = 2"
    using assms h by (simp add: authenticate_def respond_401_def Let_def split: if_splits)
  have b: "split_space h ! 0 = ''Bearer''"
    using assms h len by (simp add: authenticate_def respond_401_def Let_def split: if_splits)
  obtain a token where sp: "split_space h = [a, token]"
    using len by (cases "split_space h"; cases "tl (split_space h)") auto
  with b have sp': "split_space h = [''Bearer'', token]" by simp
  have tok: "trim token \<noteq> []"
    using assms h sp' by (simp add: authenticate_def respond_401_def Let_def split: if_splits)
  have t: "authenticate_try isValidObjectId L E W d token = Inr (Next ru)"
    using assms authenticate_catch_responds unfolding h authenticate_bearer [OF sp' tok]
    by (simp split: sum.splits)
  from authenticate_try_Next [OF t] h sp' tok show ?thesis by blast
qed

lemma authenticate_try_401_or_Next:
  "authenticate_try isValidObjectId L E W d token = Inr r
   \<Longrightarrow> (\<exists>m. r = respond_401 m) \<or> (\<exists>ru. r = Next ru)"
  by (cases "jwt_verify L (JWT_SECRET E) (now W) token"; cases isValidObjectId)
     (auto simp: authenticate_try_def Let_def call_isValidObjectId_def
        split: if_splits option.splits)

lemma authenticate_catch_401: "\<exists>m. authenticate_catch e = respond_401 m"
  unfolding authenticate_catch_def by (cases "name e = Some ''TokenExpiredError''") auto

lemma authenticate_401_or_Next:
  "(\<exists>m. authenticate isValidObjectId L E W d authHeader = respond_401 m)
   \<or> (\<exists>ru. authenticate isValidObjectId L E W d authHeader = Next ru)"
proof (cases authHeader)
  case None
  then show ?thesis by (auto simp: authenticate_def)
next
  case (Some h)
  show ?thesis
  proof (cases "h \<noteq> [] \<and> length (split_space h) = 2 \<and> split_space h ! 0 = ''Bearer''
                \<and> trim (split_space h ! 1) \<noteq> []")
    case False
    then show ?thesis
      using Some by (auto simp: authenticate_def Let_def trim_def)
  next
    case True
    then obtain a token where sp: "split_space h = [a, token]"
      by (cases "split_space h"; cases "tl (split_space h)") auto
    with True have sp': "split_space h = [''Bearer'', token]" and tok: "trim token \<noteq> []"
      by simp_all
    show ?thesis
    proof (cases "authenticate_try isValidObjectId L E W d token")
      case (Inl e)
      then show ?thesis
        using authenticate_catch_401 [of e]
        unfolding Some authenticate_bearer [OF sp' tok] by simp
    next
      case (Inr r)
      then show ?thesis
        using authenticate_try_401_or_Next [OF Inr]
        unfolding Some authenticate_bearer [OF sp' tok] by simp
    qed
  qed
qed




lemma authenticate_verify_throws:
  assumes "split_space h = [''Bearer'', token]" "trim token \<noteq> []"
      and "jwt_verify L (JWT_SECRET E) (now W) token = Inl e"
  shows "authenticate isValidObjectId L E W d (Some h) =
     (if name e = Some ''TokenExpiredError'' then
        respond_401 ''Authentication failed: Token Expired''
      else respond_401 (or_str (message e) ''Authentication failed: Invalid token''))"
  using assms(3)
  by (simp add: authenticate_bearer [OF assms(1,2)] authenticate_try_def authenticate_catch_def)







lemma jwt_verify_expired:
  assumes "jwt_decode L token = Some j" "secret = Some k" "k \<noteq> []"
      and "jws_signature j = jwt_mac L k (jws_payload j)"
      and "c_exp (jws_payload j) = Some e" "e \<le> t"
  shows "jwt_verify L secret t token = Inl (error_object ''TokenExpiredError'' ''jwt expired'')"
  using assms by (simp add: jwt_verify_def)

lemma jwt_verify_Inr_not_expired:
  assumes "jwt_verify L secret t token = Inr decoded"
      and "jwt_decode L token = Some j" "c_exp (jws_payload j) = Some e"
  shows "t < e"
  using assms by (auto simp: jwt_verify_def split: option.splits if_splits)

text \<open>
  C8. A request that presents, as \<open>Bearer <token>\<close>, a token whose expiry is not after
  the clock: when the token carries the signature of the secret the gate answers 401 with
  \<open>Authentication failed: Token Expired\<close>; whatever its signature the gate answers 401
  and never calls \<open>next()\<close>. A token signed with a lifetime of zero expires at its issue
  time, so it is rejected from the moment it is issued.
\<close>

theorem expired_token_rejected:
  assumes "split_space h = [''Bearer'', token]" and "trim token \<noteq> []"
      and "jwt_decode L token = Some j"
      and "c_exp (jws_payload j) = Some e" and "e \<le> now W"
  shows "(JWT_SECRET E = Some k \<and> k \<noteq> [] \<and> jws_signature j = jwt_mac L k (jws_payload j)
            \<longrightarrow> authenticate isValidObjectId L E W d (Some h) =
                  Respond 401 (JObj [(''message'', JStr ''Authentication failed: Token Expired''),
                                     (''code'', JNum 401),
                                     (''statusText'', JStr ''Unauthorized'')]))
       \<and> (\<exists>m. authenticate isValidObjectId L E W d (Some h) = respond_401 m)
       \<and> (\<forall>ru. authenticate isValidObjectId L E W d (Some h) \<noteq> Next ru)
       \<and> (JWT_SECRET E = Some k \<and> k \<noteq> [] \<and> j = signed_jws L k t0 0 uid mail
            \<longrightarrow> e = t0
                \<and> jwt_sign L (JWT_SECRET E) t0 0 uid mail = Inr (jwt_encode L j)
                \<and> authenticate isValidObjectId L E W d (Some h) =
                    respond_401 ''Authentication failed: Token Expired'')"
proof -
  have never: "authenticate isValidObjectId L E W d (Some h) \<noteq> Next ru" for ru
  proof
    assume "authenticate isValidObjectId L E W d (Some h) = Next ru"
    from authenticate_Next_only_if [OF this]
    obtain decoded where "jwt_verify L (JWT_SECRET E) (now W) token = Inr decoded"
      using assms(1) by auto
    from jwt_verify_Inr_not_expired [OF this assms(3,4)] assms(5)
    show False by simp
  qed
  have valid: "authenticate isValidObjectId L E W d (Some h) =
                 respond_401 ''Authentication failed: Token Expired''"
    if "JWT_SECRET E = Some k" "k \<noteq> []" "jws_signature j = jwt_mac L k (jws_payload j)"
  proof -
    have "jwt_verify L (JWT_SECRET E) (now W) token
            = Inl (error_object ''TokenExpiredError'' ''jwt expired'')"
      using jwt_verify_expired [OF assms(3) that(1,2,3) assms(4,5)] .
    from authenticate_verify_throws [OF assms(1,2) this]
    show ?thesis by (simp add: error_object_def)
  qed
  have c1: "JWT_SECRET E = Some k \<and> k \<noteq> [] \<and> jws_signature j = jwt_mac L k (jws_payload j)
            \<longrightarrow> authenticate isValidObjectId L E W d (Some h) =
                  Respond 401 (JObj [(''message'', JStr ''Authentication failed: Token Expired''),
                                     (''code'', JNum 401),
                                     (''statusText'', JStr ''Unauthorized'')])"
    using valid by (auto simp: respond_401_def json_error_def)
  have c2: "\<exists>m. authenticate isValidObjectId L E W d (Some h) = respond_401 m"
    using authenticate_401_or_Next [of isValidObjectId L E W d "Some h"] never by blast
  have c4: "JWT_SECRET E = Some k \<and> k \<noteq> [] \<and> j = signed_jws L k t0 0 uid mail
            \<longrightarrow> e = t0
                \<and> jwt_sign L (JWT_SECRET E) t0 0 uid mail = Inr (jwt_encode L j)
                \<and> authenticate isValidObjectId L E W d (Some h) =
                    respond_401 ''Authentication failed: Token Expired''"
  proof (intro impI)
    assume a: "JWT_SECRET E = Some k \<and> k \<noteq> [] \<and> j = signed_jws L k t0 0 uid mail"
    then have sig: "jws_signature j = jwt_mac L k (jws_payload j)"
      by (simp add: signed_jws_def Let_def)
    have "e = t0" using a assms(4) by (simp add: signed_jws_def Let_def)
    moreover have "jwt_sign L (JWT_SECRET E) t0 0 uid mail = Inr (jwt_encode L j)"
      using a by (simp add: jwt_sign_def)
    ultimately show "e = t0
                \<and> jwt_sign L (JWT_SECRET E) t0 0 uid mail = Inr (jwt_encode L j)
                \<and> authenticate isValidObjectId L E W d (Some h) =
                    respond_401 ''Authentication failed: Token Expired''"
      using valid a sig by blast
  qed
  show ?thesis using c1 c2 never c4 by blast
qed

theorem expired_token_rejected_witness:
  "authenticate helpers_isValidObjectId (sample_libs True) sample_env sample_world sample_db
      (Some (''Bearer tok.secret/'' @ id_alice))
     = Respond 401 (JObj [(''message'', JStr ''Authentication failed: Token Expired''),
                          (''code'', JNum 401), (''statusText'', JStr ''Unauthorized'')])
   \<and> jwt_sign (sample_libs True) (JWT_SECRET sample_env) 1000 0 (JStr id_alice) (JStr ''a@b.com'')
     = Inr (''tok.secret/'' @ id_alice)
   \<and> (\<exists>m. authenticate (Some objectId_shape) (sample_libs True) sample_env sample_world sample_db
            (Some ''Bearer tok.forged.old'') = respond_401 m)"
proof -
  have a1: "split_space (''Bearer tok.secret/'' @ id_alice) = [''Bearer'', ''tok.secret/'' @ id_alice]"
    by code_simp
  have a2: "trim (''tok.secret/'' @ id_alice) \<noteq> []" by code_simp
  have a3: "jwt_decode (sample_libs True) (''tok.secret/'' @ id_alice)
            = Some (signed_jws (sample_libs True) ''secret'' 1000 0 (JStr id_alice) (JStr ''a@b.com''))"
    by code_simp
  have a4: "c_exp (jws_payload (signed_jws (sample_libs True) ''secret'' 1000 0 (JStr id_alice)
              (JStr ''a@b.com''))) = Some 1000"
    by code_simp
  have a5: "(1000::int) \<le> now sample_world" by code_simp
  note T = expired_token_rejected [OF a1 a2 a3 a4 a5,
      where E = sample_env and k = "''secret''" and isValidObjectId = helpers_isValidObjectId
        and d = sample_db and ?t0.0 = 1000 and uid = "JStr id_alice" and mail = "JStr ''a@b.com''"]
  have s: "JWT_SECRET sample_env = Some ''secret'' \<and> ''secret'' \<noteq> []
           \<and> jws_signature (signed_jws (sample_libs True) ''secret'' 1000 0 (JStr id_alice)
                (JStr ''a@b.com''))
             = jwt_mac (sample_libs True) ''secret''
                 (jws_payload (signed_jws (sample_libs True) ''secret'' 1000 0 (JStr id_alice)
                    (JStr ''a@b.com'')))"
    by code_simp
  have enc: "jwt_encode (sample_libs True)
               (signed_jws (sample_libs True) ''secret'' 1000 0 (JStr id_alice) (JStr ''a@b.com''))
             = ''tok.secret/'' @ id_alice"
    by code_simp
  have w1: "authenticate helpers_isValidObjectId (sample_libs True) sample_env sample_world
              sample_db (Some (''Bearer tok.secret/'' @ id_alice))
            = Respond 401 (JObj [(''message'', JStr ''Authentication failed: Token Expired''),
                                 (''code'', JNum 401), (''statusText'', JStr ''Unauthorized'')])"
    using T s by blast
  have w2: "jwt_sign (sample_libs True) (JWT_SECRET sample_env) 1000 0 (JStr id_alice)
              (JStr ''a@b.com'') = Inr (''tok.secret/'' @ id_alice)"
    using T s enc by simp
  have b1: "split_space ''Bearer tok.forged.old'' = [''Bearer'', ''tok.forged.old'']"
    by code_simp
  have b2: "trim ''tok.forged.old'' \<noteq> []" by code_simp
  have b3: "jwt_decode (sample_libs True) ''tok.forged.old''
            = Some \<lparr>jws_payload = sample_claims (JStr id_alice) 1000 1200,
                    jws_signature = ''guess''\<rparr>"
    by code_simp
  have b4: "c_exp (jws_payload \<lparr>jws_payload = sample_claims (JStr id_alice) 1000 1200,
                    jws_signature = ''guess''\<rparr>) = Some 1200"
    by code_simp
  have b5: "(1200::int) \<le> now sample_world" by code_simp
  have w3: "\<exists>m. authenticate (Some objectId_shape) (sample_libs True) sample_env sample_world
                 sample_db (Some ''Bearer tok.forged.old'') = respond_401 m"
    using expired_token_rejected [OF b1 b2 b3 b4 b5] by blast
  show ?thesis using w1 w2 w3 by (intro conjI)
qed

text \<open>
  With the binding of helpers.js the gate never calls \<open>next()\<close>: a token that verifies
  and names a user reaches the call of \<open>isValidObjectId\<close>, whose TypeError the catch
  block answers with a 401.
\<close>

theorem gate_never_proceeds_without_helper:
  "authenticate helpers_isValidObjectId L E W d authHeader \<noteq> Next ru"
proof
  assume "authenticate helpers_isValidObjectId L E W d authHeader = Next ru"
  from authenticate_Next_only_if [OF this]
  show False by (auto simp: helpers_isValidObjectId_def)
qed

section \<open>Goal operations\<close>

lemma require_ObjectId_undefined:
  "x \<noteq> [] \<Longrightarrow> require_ObjectId None x msg = Inl (not_a_function ''isValidObjectId'')"
  by (simp add: require_ObjectId_def call_isValidObjectId_def)

text \<open>
  C2. With the binding that helpers.js provides, each of the four goal operations, called
  with identifiers that are not empty, throws the TypeError of calling a binding that is
  \<open>undefined\<close>. The guards stand before the \<open>try\<close> block of each operation, so no
  catch block re-wraps the error as a 500, and the value thrown has neither a \<open>code\<close>
  nor a \<open>statusText\<close>.
\<close>

theorem goal_operations_throw_TypeError:
  assumes "goalId \<noteq> []" and "userId \<noteq> []"
  shows "getGoal helpers_isValidObjectId d goalId userId
           = Inl \<lparr>name = Some ''TypeError'', message = Some ''isValidObjectId is not a function'',
                  code = None, statusText = None\<rparr>
       \<and> fst (updateGoal helpers_isValidObjectId L W d goalId userId title description targetDate
                progress)
           = Inl \<lparr>name = Some ''TypeError'', message = Some ''isValidObjectId is not a function'',
                  code = None, statusText = None\<rparr>
       \<and> fst (deleteGoal helpers_isValidObjectId d goalId userId)
           = Inl \<lparr>name = Some ''TypeError'', message = Some ''isValidObjectId is not a function'',
                  code = None, statusText = None\<rparr>
       \<and> fst (createGoal helpers_isValidObjectId L W d userId title' description' targetDate'
                progress')
           = Inl \<lparr>name = Some ''TypeError'', message = Some ''isValidObjectId is not a function'',
                  code = None, statusText = None\<rparr>
       \<and> \<not> is_structured \<lparr>name = Some ''TypeError'',
                            message = Some ''isValidObjectId is not a function'',
                            code = None, statusText = None\<rparr>
       \<and> \<not> formatted \<lparr>name = Some ''TypeError'',
                        message = Some ''isValidObjectId is not a function'',
                        code = None, statusText = None\<rparr>"
  using assms
  by (simp add: getGoal_def updateGoal_def deleteGoal_def createGoal_def
      helpers_isValidObjectId_def require_ObjectId_undefined not_a_function_def error_object_def
      is_structured_def formatted_def truthy_num_def Let_def)

theorem goal_operations_throw_TypeError_witness:
  "getGoal helpers_isValidObjectId sample_db id_goal_a id_alice
           = Inl \<lparr>name = Some ''TypeError'', message = Some ''isValidObjectId is not a function'',
                  code = None, statusText = None\<rparr>
       \<and> fst (updateGoal helpers_isValidObjectId (sample_libs True) sample_world sample_db
                id_goal_a id_alice (JStr ''Run 12k'') JUndefined JUndefined (JNum 50))
           = Inl \<lparr>name = Some ''TypeError'', message = Some ''isValidObjectId is not a function'',
                  code = None, statusText = None\<rparr>
       \<and> fst (deleteGoal helpers_isValidObjectId sample_db id_goal_a id_alice)
           = Inl \<lparr>name = Some ''TypeError'', message = Some ''isValidObjectId is not a function'',
                  code = None, statusText = None\<rparr>
       \<and> fst (createGoal helpers_isValidObjectId (sample_libs True) sample_world sample_db
                id_alice (JStr ''Row'') (JStr ''lake'') (JNum 9000) (JNum 0))
           = Inl \<lparr>name = Some ''TypeError'', message = Some ''isValidObjectId is not a function'',
                  code = None, statusText = None\<rparr>"
proof -
  have a: "id_goal_a \<noteq> []" by code_simp
  have b: "id_alice \<noteq> []" by code_simp
  show ?thesis
    using goal_operations_throw_TypeError [OF a b, where d = sample_db
        and L = "sample_libs True" and W = sample_world and title = "JStr ''Run 12k''"
        and description = JUndefined and targetDate = JUndefined and progress = "JNum 50"
        and title' = "JStr ''Row''" and description' = "JStr ''lake''"
        and targetDate' = "JNum 9000" and progress' = "JNum 0"]
    by simp
qed

lemma require_ObjectId_accepts:
  "x \<noteq> [] \<Longrightarrow> f x \<Longrightarrow> require_ObjectId (Some f) x msg = Inr ()"
  by (simp add: require_ObjectId_def call_isValidObjectId_def)

lemma Goal_findOne_foreign:
  assumes "\<forall>g\<in>set (goals d). g_id g = goalId \<longrightarrow> g_userId g \<noteq> userId"
  shows "Goal_findOne d goalId userId = None"
  using assms unfolding Goal_findOne_def find_None_iff_list_all
  by (auto simp: list_all_iff)

lemma goal_catch_not_found: "goal_catch fallback (not_found m) = (if m = [] then internal fallback else not_found m)"
  by (simp add: goal_catch_def not_found_def formatted_structured)

text \<open>Every failure of \<open>updateGoal\<close> leaves the store as it was.\<close>

lemma updateGoal_failure_keeps_store:
  "updateGoal isValidObjectId L W d goalId userId title description targetDate progress
     = (Inl e, d') \<Longrightarrow> d' = d"
  by (auto simp: updateGoal_def updateGoal_try_def Goal_save_def Let_def
      split: sum.splits option.splits prod.splits if_splits)

text \<open>
  C5. With the binding that helpers.js provides, \<open>getGoal\<close>, \<open>updateGoal\<close> and
  \<open>deleteGoal\<close>, called with a goal identifier that is not empty, throw the TypeError
  of the guard on the goal identifier. The guard stands before the lookup, so the call on
  a goal of another user is not answered with \<open>Goal not found\<close>, code 404: nothing is
  looked up, and the store is unchanged.
\<close>

theorem foreign_goal_guard_throws:
  assumes "goalId \<noteq> []"
  shows "getGoal helpers_isValidObjectId d goalId userId
           = Inl \<lparr>name = Some ''TypeError'', message = Some ''isValidObjectId is not a function'',
                  code = None, statusText = None\<rparr>
       \<and> updateGoal helpers_isValidObjectId L W d goalId userId title description targetDate
            progress
           = (Inl \<lparr>name = Some ''TypeError'',
                   message = Some ''isValidObjectId is not a function'',
                   code = None, statusText = None\<rparr>, d)
       \<and> deleteGoal helpers_isValidObjectId d goalId userId
           = (Inl \<lparr>name = Some ''TypeError'',
                   message = Some ''isValidObjectId is not a function'',
                   code = None, statusText = None\<rparr>, d)
       \<and> getGoal helpers_isValidObjectId d goalId userId
           \<noteq> Inl \<lparr>name = None, message = Some ''Goal not found'', code = Some 404,
                  statusText = Some ''Not Found''\<rparr>
       \<and> fst (updateGoal helpers_isValidObjectId L W d goalId userId title description
                targetDate progress)
           \<noteq> Inl \<lparr>name = None, message = Some ''Goal not found'', code = Some 404,
                  statusText = Some ''Not Found''\<rparr>
       \<and> fst (deleteGoal helpers_isValidObjectId d goalId userId)
           \<noteq> Inl \<lparr>name = None, message = Some ''Goal not found'', code = Some 404,
                  statusText = Some ''Not Found''\<rparr>"
  using assms
  by (simp add: getGoal_def updateGoal_def deleteGoal_def helpers_isValidObjectId_def
      require_ObjectId_undefined not_a_function_def error_object_def Let_def)

text \<open>
  On the instance: the goal of \<open>bob\<close>, asked for, updated and deleted by \<open>alice\<close>.
\<close>

theorem foreign_goal_guard_throws_witness:
  "goal_b \<in> set (goals sample_db) \<and> g_id goal_b = id_goal_b \<and> g_userId goal_b = id_bob
   \<and> id_bob \<noteq> id_alice \<and> User_findById sample_db id_alice = Some alice
   \<and> getGoal helpers_isValidObjectId sample_db id_goal_b id_alice
       = Inl \<lparr>name = Some ''TypeError'', message = Some ''isValidObjectId is not a function'',
              code = None, statusText = None\<rparr>
   \<and> updateGoal helpers_isValidObjectId (sample_libs True) sample_world sample_db
        id_goal_b id_alice (JStr ''Mine now'') JUndefined JUndefined (JNum 100)
       = (Inl \<lparr>name = Some ''TypeError'',
               message = Some ''isValidObjectId is not a function'',
               code = None, statusText = None\<rparr>, sample_db)
   \<and> deleteGoal helpers_isValidObjectId sample_db id_goal_b id_alice
       = (Inl \<lparr>name = Some ''TypeError'',
               message = Some ''isValidObjectId is not a function'',
               code = None, statusText = None\<rparr>, sample_db)"
proof -
  have 1: "id_goal_b \<noteq> []" by code_simp
  have 2: "goal_b \<in> set (goals sample_db) \<and> g_id goal_b = id_goal_b
           \<and> g_userId goal_b = id_bob \<and> id_bob \<noteq> id_alice
           \<and> User_findById sample_db id_alice = Some alice"
    by code_simp
  show ?thesis
    using foreign_goal_guard_throws [OF 1, where d = sample_db and userId = id_alice
        and L = "sample_libs True" and W = sample_world and title = "JStr ''Mine now''"
        and description = JUndefined and targetDate = JUndefined and progress = "JNum 100"] 2
    by simp
qed

text \<open>
  What the three operations do behind the guards, for a module that exports a function
  \<open>f\<close> under the name \<open>isValidObjectId\<close>: for a stored user and a goal identifier
  that no record of this user carries, \<open>getGoal\<close> and \<open>deleteGoal\<close> fail with
  \<open>Goal not found\<close>, code 404; \<open>updateGoal\<close> fails with the error of its input
  validation when that rejects the arguments and with \<open>Goal not found\<close> otherwise; the
  store is unchanged in every case.
\<close>

lemma foreign_goal_not_found_given_helper:
  assumes "goalId \<noteq> []" and "userId \<noteq> []" and "f goalId" and "f userId"
      and "User_findById d userId = Some user"
      and "\<forall>g\<in>set (goals d). g_id g = goalId \<longrightarrow> g_userId g \<noteq> userId"
  shows "getGoal (Some f) d goalId userId
           = Inl \<lparr>name = None, message = Some ''Goal not found'', code = Some 404,
                  statusText = Some ''Not Found''\<rparr>
       \<and> deleteGoal (Some f) d goalId userId
           = (Inl \<lparr>name = None, message = Some ''Goal not found'', code = Some 404,
                   statusText = Some ''Not Found''\<rparr>, d)
       \<and> updateGoal (Some f) L W d goalId userId title description targetDate progress
           = (case updateGoal_validate L W (sanitizeString title) (sanitizeString description)
                     targetDate progress of
                Some e \<Rightarrow> (Inl e, d)
              | None \<Rightarrow>
                  (Inl \<lparr>name = None, message = Some ''Goal not found'', code = Some 404,
                        statusText = Some ''Not Found''\<rparr>, d))"
proof -
  note g = Goal_findOne_foreign [OF assms(6)]
  note r = require_ObjectId_accepts [of goalId f, OF assms(1,3)]
    require_ObjectId_accepts [of userId f, OF assms(2,4)]
  have c: "goal_catch fallback (not_found ''Goal not found'') = not_found ''Goal not found''"
    for fallback
    by (simp add: goal_catch_not_found)
  have 1: "getGoal (Some f) d goalId userId = Inl (not_found ''Goal not found'')"
    using assms(5) g r by (simp add: getGoal_def getGoal_try_def c)
  have 2: "deleteGoal (Some f) d goalId userId = (Inl (not_found ''Goal not found''), d)"
    using assms(5) g r by (simp add: deleteGoal_def deleteGoal_try_def c)
  have 3: "updateGoal (Some f) L W d goalId userId title description targetDate progress
           = (case updateGoal_validate L W (sanitizeString title) (sanitizeString description)
                     targetDate progress of
                Some e \<Rightarrow> (Inl e, d)
              | None \<Rightarrow> (Inl (not_found ''Goal not found''), d))"
    using assms(5) g r
    by (simp add: updateGoal_def updateGoal_try_def c Let_def split: option.splits)
  show ?thesis
    using 1 2 3 by (simp add: not_found_def structured_def split: option.splits)
qed

lemma foreign_goal_not_found_given_helper_instance:
  "getGoal (Some objectId_shape) sample_db id_goal_b id_alice
           = Inl \<lparr>name = None, message = Some ''Goal not found'', code = Some 404,
                  statusText = Some ''Not Found''\<rparr>
       \<and> deleteGoal (Some objectId_shape) sample_db id_goal_b id_alice
           = (Inl \<lparr>name = None, message = Some ''Goal not found'', code = Some 404,
                   statusText = Some ''Not Found''\<rparr>, sample_db)
       \<and> updateGoal (Some objectId_shape) (sample_libs True) sample_world sample_db
             id_goal_b id_alice (JStr ''Mine now'') JUndefined JUndefined (JNum 100)
           = (Inl \<lparr>name = None, message = Some ''Goal not found'', code = Some 404,
                        statusText = Some ''Not Found''\<rparr>, sample_db)"
proof -
  have 1: "id_goal_b \<noteq> []" by code_simp
  have 2: "id_alice \<noteq> []" by code_simp
  have 3: "objectId_shape id_goal_b" by code_simp
  have 4: "objectId_shape id_alice" by code_simp
  have 5: "User_findById sample_db id_alice = Some alice" by code_simp
  have 6: "\<forall>g\<in>set (goals sample_db). g_id g = id_goal_b \<longrightarrow> g_userId g \<noteq> id_alice"
    by code_simp
  have v: "updateGoal_validate (sample_libs True) sample_world (sanitizeString (JStr ''Mine now''))
             (sanitizeString JUndefined) JUndefined (JNum 100) = None"
    by code_simp
  show ?thesis
    using foreign_goal_not_found_given_helper [OF 1 2 3 4 5 6, where L = "sample_libs True"
        and W = sample_world and title = "JStr ''Mine now''" and description = JUndefined
        and targetDate = JUndefined and progress = "JNum 100"] v
    by simp
qed

text \<open>
  On the instance, \<open>updateGoal\<close> on a goal of another user with no \<open>progress\<close> in the
  request: behind the guards the input validation comes before the lookup.
\<close>

lemma foreign_goal_update_given_helper_instance:
  "fst (updateGoal (Some objectId_shape) (sample_libs True) sample_world sample_db
           id_goal_b id_alice JUndefined JUndefined JUndefined JUndefined)
       = Inl (bad_request ''Progress must be a number between 0 and 100'')"
  by code_simp

lemma assign_fields_keeps_ids:
  "g_id (assign_fields L goal t ds td p) = g_id goal
   \<and> g_userId (assign_fields L goal t ds td p) = g_userId goal"
  by (simp add: assign_fields_def Let_def split: option.splits js_val.splits)

lemma assign_fields_zero_progress:
  "g_progress (assign_fields L goal t ds td (JNum 0)) = g_progress goal"
  by (simp add: assign_fields_def Let_def split: option.splits)

lemma assign_fields_empty:
  "(t = [] \<longrightarrow> g_title (assign_fields L goal t ds td p) = g_title goal)
   \<and> (ds = [] \<longrightarrow> g_description (assign_fields L goal t ds td p) = g_description goal)
   \<and> (\<not> truthy td \<longrightarrow> g_targetDate (assign_fields L goal t ds td p) = g_targetDate goal)"
  by (simp add: assign_fields_def Let_def split: option.splits js_val.splits)

lemma Goal_findOne_Some:
  "Goal_findOne d goalId userId = Some goal \<Longrightarrow> g_id goal = goalId \<and> g_userId goal = userId"
  unfolding Goal_findOne_def by (induction "goals d" arbitrary: d) (auto simp: find_Some_iff)

text \<open>
  C9. With the binding that helpers.js provides, \<open>updateGoal\<close> with \<open>progress = 0\<close>
  and a goal identifier that is not empty throws the TypeError of the guard on the goal
  identifier: it returns no goal, whatever the other arguments and whoever owns the goal,
  and the store is unchanged. The assignments behind the truthiness tests are not reached.
\<close>

theorem update_zero_progress_guard_throws:
  assumes "goalId \<noteq> []"
  shows "updateGoal helpers_isValidObjectId L W d goalId userId title description targetDate
            (JNum 0)
           = (Inl \<lparr>name = Some ''TypeError'',
                   message = Some ''isValidObjectId is not a function'',
                   code = None, statusText = None\<rparr>, d)
       \<and> (\<forall>g d'. updateGoal helpers_isValidObjectId L W d goalId userId title description
                     targetDate (JNum 0) \<noteq> (Inr g, d'))"
  using assms
  by (simp add: updateGoal_def helpers_isValidObjectId_def require_ObjectId_undefined
      not_a_function_def error_object_def Let_def)

text \<open>
  On the instance: \<open>alice\<close> updates her own goal, whose progress is 40, with a new
  title and \<open>progress = 0\<close>.
\<close>

theorem update_zero_progress_guard_throws_witness:
  "User_findById sample_db id_alice = Some alice
   \<and> Goal_findOne sample_db id_goal_a id_alice = Some goal_a \<and> g_progress goal_a = 40
   \<and> updateGoal helpers_isValidObjectId (sample_libs True) sample_world sample_db
        id_goal_a id_alice (JStr ''Run 12k'') JNull JUndefined (JNum 0)
       = (Inl \<lparr>name = Some ''TypeError'',
               message = Some ''isValidObjectId is not a function'',
               code = None, statusText = None\<rparr>, sample_db)
   \<and> Goal_findOne
        (snd (updateGoal helpers_isValidObjectId (sample_libs True) sample_world sample_db
                id_goal_a id_alice (JStr ''Run 12k'') JNull JUndefined (JNum 0)))
        id_goal_a id_alice = Some goal_a"
proof -
  have 1: "id_goal_a \<noteq> []" by code_simp
  have 2: "User_findById sample_db id_alice = Some alice
           \<and> Goal_findOne sample_db id_goal_a id_alice = Some goal_a \<and> g_progress goal_a = 40"
    by code_simp
  show ?thesis
    using update_zero_progress_guard_throws [OF 1, where d = sample_db and userId = id_alice
        and L = "sample_libs True" and W = sample_world and title = "JStr ''Run 12k''"
        and description = JNull and targetDate = JUndefined] 2
    by simp
qed

text \<open>
  What \<open>updateGoal\<close> does behind the guards, for a module that exports a function \<open>f\<close>
  under the name \<open>isValidObjectId\<close>: with \<open>progress = 0\<close> on a goal of the caller,
  when the input validation and the validation of the saved document pass, the call
  succeeds, the progress of the returned and of the stored goal is the progress it had,
  and a title or description that sanitizes to the empty string and a target date that is
  falsy leave their fields as they were.
\<close>

lemma update_zero_progress_unchanged_given_helper:
  assumes "goalId \<noteq> []" and "userId \<noteq> []" and "f goalId" and "f userId"
      and "updateGoal_validate L W (sanitizeString title) (sanitizeString description)
             targetDate (JNum 0) = None"
      and "User_findById d userId = Some user"
      and "Goal_findOne d goalId userId = Some goal"
      and "Goal_valid W (assign_fields L goal (sanitizeString title) (sanitizeString description)
             targetDate (JNum 0))"
  shows "\<exists>g' d'.
           updateGoal (Some f) L W d goalId userId title description targetDate (JNum 0)
             = (Inr g', d')
         \<and> g_progress g' = g_progress goal
         \<and> Goal_findOne d' goalId userId = Some g'
         \<and> users d' = users d
         \<and> (sanitizeString title = [] \<longrightarrow> g_title g' = g_title goal)
         \<and> (sanitizeString description = [] \<longrightarrow> g_description g' = g_description goal)
         \<and> (\<not> truthy targetDate \<longrightarrow> g_targetDate g' = g_targetDate goal)"
proof -
  define a where "a = assign_fields L goal (sanitizeString title) (sanitizeString description)
             targetDate (JNum 0)"
  define g' where "g' = (if a = goal then a else a\<lparr>g_updatedAt := Date_now W\<rparr>)"
  define d' where "d' = d\<lparr>goals := map (\<lambda>x. if g_id x = g_id g' then g' else x) (goals d)\<rparr>"
  note r = require_ObjectId_accepts [of goalId f, OF assms(1,3)]
    require_ObjectId_accepts [of userId f, OF assms(2,4)]
  have ids: "g_id g' = goalId" "g_userId g' = userId"
    using Goal_findOne_Some [OF assms(7)] assign_fields_keeps_ids [of L goal]
    by (simp_all add: g'_def a_def)
  have u: "updateGoal (Some f) L W d goalId userId title description targetDate (JNum 0)
             = (Inr g', d')"
    using assms(5,6,7,8) r
    by (simp add: updateGoal_def updateGoal_try_def Goal_save_def Let_def a_def g'_def d'_def)
  have p: "g_progress g' = g_progress goal"
    using assign_fields_zero_progress [of L goal] by (simp add: g'_def a_def)
  have s: "Goal_findOne d' goalId userId = Some g'"
    unfolding Goal_findOne_def d'_def
    using find_map_replace [of "\<lambda>g. g_id g = goalId \<and> g_userId g = userId" "goals d" goal g'
             "\<lambda>x. g_id x = g_id g'"] assms(7) ids
    by (simp add: Goal_findOne_def)
  have e: "(sanitizeString title = [] \<longrightarrow> g_title g' = g_title goal)
         \<and> (sanitizeString description = [] \<longrightarrow> g_description g' = g_description goal)
         \<and> (\<not> truthy targetDate \<longrightarrow> g_targetDate g' = g_targetDate goal)"
    using assign_fields_empty [of "sanitizeString title" L goal "sanitizeString description"
        targetDate "JNum 0"]
    by (simp add: g'_def a_def)
  have "users d' = users d" by (simp add: d'_def)
  with u p s e show ?thesis by blast
qed

lemma update_zero_progress_unchanged_given_helper_instance:
  "\<exists>g' d'.
     updateGoal (Some objectId_shape) (sample_libs True) sample_world sample_db id_goal_a id_alice
       (JStr ''Run 12k'') JNull JUndefined (JNum 0) = (Inr g', d')
   \<and> g_progress g' = 40
   \<and> Goal_findOne d' id_goal_a id_alice = Some g'
   \<and> g_description g' = ''weekly'' \<and> g_targetDate g' = 5000000"
proof -
  have 1: "id_goal_a \<noteq> []" by code_simp
  have 2: "id_alice \<noteq> []" by code_simp
  have 3: "objectId_shape id_goal_a" by code_simp
  have 4: "objectId_shape id_alice" by code_simp
  have 5: "updateGoal_validate (sample_libs True) sample_world (sanitizeString (JStr ''Run 12k''))
             (sanitizeString JNull) JUndefined (JNum 0) = None"
    by code_simp
  have 6: "User_findById sample_db id_alice = Some alice" by code_simp
  have 7: "Goal_findOne sample_db id_goal_a id_alice = Some goal_a" by code_simp
  have 8: "Goal_valid sample_world (assign_fields (sample_libs True) goal_a
             (sanitizeString (JStr ''Run 12k'')) (sanitizeString JNull) JUndefined (JNum 0))"
    by code_simp
  have v: "g_progress goal_a = 40 \<and> g_description goal_a = ''weekly''
           \<and> g_targetDate goal_a = 5000000 \<and> sanitizeString JNull = [] \<and> \<not> truthy JUndefined"
    by code_simp
  show ?thesis
    using update_zero_progress_unchanged_given_helper [OF 1 2 3 4 5 6 7 8] v by force
qed

end
